theory Spec2Isabelle
  imports Complex_Main
begin

section \<open>Ionosphere media correction (Ionosphere.cpp)\<close>

text \<open>
  A shallow embedding of \<^verbatim>\<open>Ionosphere.cpp\<close>. GMAT's \<^verbatim>\<open>Real\<close> (a C++ double) is
  modelled by the mathematical reals: rounding, infinities and NaN are outside the model, and
  every statement below is about the arithmetic the source text writes down.
  \<^verbatim>\<open>Integer\<close> (a 32-bit int) is modelled by \<open>int\<close>: the packed dates
  \<^verbatim>\<open>yyyy*10000 + mmdd\<close> are built from a four-character year and stay far below \<open>2^31\<close>.
\<close>

subsection \<open>Vectors (Rvector3)\<close>

datatype Rvector3 = Rvector3 real real real

fun vadd :: "Rvector3 \<Rightarrow> Rvector3 \<Rightarrow> Rvector3" where
  "vadd (Rvector3 x1 y1 z1) (Rvector3 x2 y2 z2) = Rvector3 (x1 + x2) (y1 + y2) (z1 + z2)"

fun vsub :: "Rvector3 \<Rightarrow> Rvector3 \<Rightarrow> Rvector3" where
  "vsub (Rvector3 x1 y1 z1) (Rvector3 x2 y2 z2) = Rvector3 (x1 - x2) (y1 - y2) (z1 - z2)"

fun smul :: "real \<Rightarrow> Rvector3 \<Rightarrow> Rvector3" where
  "smul k (Rvector3 x y z) = Rvector3 (k * x) (k * y) (k * z)"

fun vdivs :: "Rvector3 \<Rightarrow> real \<Rightarrow> Rvector3" where
  "vdivs (Rvector3 x y z) k = Rvector3 (x / k) (y / k) (z / k)"

fun dot :: "Rvector3 \<Rightarrow> Rvector3 \<Rightarrow> real" where
  "dot (Rvector3 x1 y1 z1) (Rvector3 x2 y2 z2) = x1 * x2 + y1 * y2 + z1 * z2"

definition GetMagnitude :: "Rvector3 \<Rightarrow> real" where
  "GetMagnitude v = sqrt (dot v v)"

subsection \<open>Constants\<close>

definition NUM_OF_INTERVALS :: nat where
  "NUM_OF_INTERVALS = 200"

definition IONOSPHERE_MAX_ALTITUDE :: real where
  "IONOSPHERE_MAX_ALTITUDE = 2000.0"

text \<open>
  Modelled from the spec: the headers \<^verbatim>\<open>GmatConstants.hpp\<close> are not under src/; the
  spec writes the speed of light as \<open>c\<close> and converts kilometres to metres.
\<close>

definition SPEED_OF_LIGHT_VACUUM :: real where
  "SPEED_OF_LIGHT_VACUUM = 299792458.0"

definition KM_TO_M :: real where
  "KM_TO_M = 1000.0"

definition TWO_PI :: real where
  "TWO_PI = 2 * pi"

subsection \<open>Errors, messages and the engine state\<close>

text \<open>
  Every \<^verbatim>\<open>throw\<close> of the source is a constructor. \<open>StdOutOfRange\<close> is the
  \<^verbatim>\<open>std::out_of_range\<close> of \<^verbatim>\<open>std::string::substr\<close>; \<open>ReadPastEnd i n\<close> marks a read of
  \<^verbatim>\<open>coefs[i]\<close> in a vector of \<open>n\<close> elements with \<open>n \<le> i\<close>, which C++ leaves undefined.
\<close>

datatype error =
    EpochOutOfRange
  | DataFilesNotFound
  | CannotOpenDataFile
  | LoadFilesError
  | InvalidTimeRange
  | RecordNotFound
  | UnsupportedMathFormat string
  | UnrecognizedModel string
  | StdOutOfRange
  | ReadPastEnd nat nat
  | ZeroVector

text \<open>
  What \<^verbatim>\<open>MessageInterface::ShowMessage\<close> is given: the ig\_rz range warning carries the
  epoch and the two packed bounds (the source formats them as month/day/year text).
\<close>

datatype message =
    IgrzRangeWarning real int int
  | UnrecognizedModelMessage string

text \<open>
  A row of \<^verbatim>\<open>DSNDatabase\<close>: the source reads the string fields 0 to 7 of each row, named
  here by their role.
\<close>

record dsn_row =
  signalType :: string      \<comment> \<open>field 0\<close>
  modelType :: string       \<comment> \<open>field 1\<close>
  coefCsv :: string         \<comment> \<open>field 2\<close>
  recordType :: string      \<comment> \<open>field 3\<close>
  validStart :: string      \<comment> \<open>field 4\<close>
  validEnd :: string        \<comment> \<open>field 5\<close>
  facilityKey :: string     \<comment> \<open>field 6\<close>
  spacecraftKey :: string   \<comment> \<open>field 7\<close>

text \<open>
  The fields of the \<^verbatim>\<open>Ionosphere\<close> object that the functions below read or write, and
  \<open>shown\<close>, the messages this instance has passed to \<^verbatim>\<open>MessageInterface::ShowMessage\<close>,
  oldest first.
\<close>

record engine =
  igrz_yyyymmddMin :: int
  igrz_yyyymmddMax :: int
  ap_yyyymmddMin :: int
  ap_yyyymmddMax :: int
  igrz_WarningCount :: int
  isInitialized :: bool
  modelTypeName :: string
  waveLength :: real
  epoch :: real
  yyyy :: int
  mmdd :: int
  hours :: real
  stationLoc :: Rvector3
  spacecraftLoc :: Rvector3
  earthRadius :: real
  groundStationId :: string
  spacecraftId :: int
  DSNDatabase :: "dsn_row list"
  shown :: "message list"

text \<open>
  The collaborators that are not under src/, taken as parameters:
  \<^item> \<open>iri_sub pos iy md hour\<close>: the status \<^verbatim>\<open>ier\<close> and the density \<^verbatim>\<open>outf[21]\<close> that
    \<^verbatim>\<open>iri_sub__\<close> returns at the latitude, longitude and altitude that
    \<^verbatim>\<open>GmatCalcUtil::CalculatePlanetData\<close> derives from \<open>pos\<close>;
  \<^item> \<open>UnitVector\<close>: \<^verbatim>\<open>Rvector3::GetUnitVector\<close> (\<open>None\<close>: it throws, which the model
    records as \<open>ZeroVector\<close>);
  \<^item> \<open>MediaCorrection_Initialize\<close>: what \<^verbatim>\<open>MediaCorrectionInterface::Initialize()\<close> returns;
  \<^item> \<open>ap_first\<close>, \<open>ap_last\<close>: the three integers that \<^verbatim>\<open>ss >> year >> month >> day\<close>
    extracts from the first line and from the last non-empty line of ap.dat;
  \<^item> \<open>igrz_range\<close>: the four integers \<^verbatim>\<open>monthMin, yearMin, monthMax, yearMax\<close> extracted
    from the range line of ig\_rz.dat;
  \<^item> \<open>load_all_files\<close>: the \<^verbatim>\<open>errNo\<close> of \<^verbatim>\<open>load_all_files__\<close>;
  \<^item> \<open>UTCGregorian ep\<close>: the year, the packed month-day and the decimal hours that
    \<^verbatim>\<open>SetTime\<close> reads off the text of \<^verbatim>\<open>TimeSystemConverter::Convert\<close>;
  \<^item> \<open>ToInteger\<close>, \<open>ToReal\<close>, \<open>ToRealArray\<close>, \<open>ToString\<close>, \<open>RemoveAllBlanks\<close>: the
    functions of \<^verbatim>\<open>GmatStringUtil\<close> (\<open>None\<close>: the conversion returns false and leaves
    its output argument as it was);
  \<^item> \<open>ModifiedJulianDate\<close>: the calendar routine of that name;
  \<^item> \<open>stationNumber_init\<close>: the value the local \<^verbatim>\<open>Integer stationNumber\<close>, declared
    without an initialiser in \<^verbatim>\<open>CalculateTRK223\<close>, happens to hold.
\<close>

record env =
  iri_sub :: "Rvector3 \<Rightarrow> int \<Rightarrow> int \<Rightarrow> real \<Rightarrow> int \<times> real"
  UnitVector :: "Rvector3 \<Rightarrow> Rvector3 option"
  MediaCorrection_Initialize :: bool
  ap_first :: "int \<times> int \<times> int"
  ap_last :: "int \<times> int \<times> int"
  igrz_range :: "int \<times> int \<times> int \<times> int"
  load_all_files :: int
  UTCGregorian :: "real \<Rightarrow> int \<times> int \<times> real"
  ToInteger :: "string \<Rightarrow> int option"
  ToReal :: "string \<Rightarrow> real option"
  ToRealArray :: "string \<Rightarrow> real list"
  ToString :: "int \<Rightarrow> string"
  RemoveAllBlanks :: "string \<Rightarrow> string"
  ModifiedJulianDate :: "int \<Rightarrow> int \<Rightarrow> int \<Rightarrow> int \<Rightarrow> int \<Rightarrow> real \<Rightarrow> real"
  stationNumber_init :: int

subsection \<open>Initialisation: the valid date ranges\<close>

definition GetAPTimeRange :: "env \<Rightarrow> engine \<Rightarrow> engine \<times> (error + unit)" where
  "GetAPTimeRange X e =
     (case ap_first X of (year, month, day) \<Rightarrow>
        let year = (if year \<ge> 58 then 1900 + year else 2000 + year);
            e1 = e\<lparr>ap_yyyymmddMin := year * 10000 + month * 100 + day\<rparr>
        in (case ap_last X of (year, month, day) \<Rightarrow>
              let year = (if year \<ge> 58 then 1900 + year else 2000 + year);
                  e2 = e1\<lparr>ap_yyyymmddMax := year * 10000 + month * 100 + day\<rparr>
              in if ap_yyyymmddMax e2 \<le> ap_yyyymmddMin e2
                 then (e2, Inl InvalidTimeRange)
                 else (e2, Inr ())))"

definition GetIGRZTimeRange :: "env \<Rightarrow> engine \<Rightarrow> engine \<times> (error + unit)" where
  "GetIGRZTimeRange X e =
     (case igrz_range X of (monthMin, yearMin, monthMax, yearMax) \<Rightarrow>
        let e1 = e\<lparr>igrz_yyyymmddMin := yearMin * 10000 + monthMin * 100 + 1\<rparr>;
            dayMax =
              (if monthMax = 2 then
                 (if (yearMax mod 4 = 0 \<and> yearMax mod 100 \<noteq> 0) \<or> yearMax mod 400 = 0
                  then 29 else 28)
               else if monthMax \<in> {1, 3, 5, 7, 8, 10, 12} then 31
               else 30);
            e2 = e1\<lparr>igrz_yyyymmddMax := yearMax * 10000 + monthMax * 100 + dayMax\<rparr>
        in if igrz_yyyymmddMax e2 \<le> igrz_yyyymmddMin e2
           then (e2, Inl InvalidTimeRange)
           else (e2, Inr ()))"

definition Initialize :: "env \<Rightarrow> engine \<Rightarrow> engine \<times> (error + bool)" where
  "Initialize X e =
     (if isInitialized e then (e, Inr True)
      else if MediaCorrection_Initialize X then
        (case GetAPTimeRange X e of
           (e1, Inl err) \<Rightarrow> (e1, Inl err)
         | (e1, Inr _) \<Rightarrow>
            (case GetIGRZTimeRange X e1 of
               (e2, Inl err) \<Rightarrow> (e2, Inl err)
             | (e2, Inr _) \<Rightarrow>
                let errNo = load_all_files X
                in if errNo \<ge> 1000 then (e2, Inl CannotOpenDataFile)
                   else if 1000 > errNo \<and> errNo > 0 then (e2, Inl LoadFilesError)
                   else (e2\<lparr>isInitialized := True\<rparr>, Inr True)))
      else (e, Inr True))"

subsection \<open>Setters\<close>

definition SetWaveLength :: "real \<Rightarrow> engine \<Rightarrow> engine" where
  "SetWaveLength lambda e = e\<lparr>waveLength := lambda\<rparr>"

definition SetTime :: "env \<Rightarrow> real \<Rightarrow> engine \<Rightarrow> engine" where
  "SetTime X ep e =
     (case UTCGregorian X ep of (y, md, h) \<Rightarrow>
        e\<lparr>epoch := ep, yyyy := y, mmdd := md, hours := h\<rparr>)"

definition SetStationPosition :: "Rvector3 \<Rightarrow> engine \<Rightarrow> engine" where
  "SetStationPosition p e = e\<lparr>stationLoc := p\<rparr>"

definition SetSpacecraftPosition :: "Rvector3 \<Rightarrow> engine \<Rightarrow> engine" where
  "SetSpacecraftPosition p e = e\<lparr>spacecraftLoc := p\<rparr>"

definition SetEarthRadius :: "real \<Rightarrow> engine \<Rightarrow> engine" where
  "SetEarthRadius r e = e\<lparr>earthRadius := r\<rparr>"

subsection \<open>Electron density, TEC and bending angle\<close>

text \<open>
  \<open>ElectronDensity\<close> calls the provider once, fails on a non-zero status and floors the
  density at zero.
\<close>

definition ElectronDensity :: "env \<Rightarrow> engine \<Rightarrow> Rvector3 \<Rightarrow> error + real" where
  "ElectronDensity X e pos1 =
     (let iut = 1;
          hour = hours e + iut * 25.0
      in case iri_sub X pos1 (yyyy e) (mmdd e) hour of (ier, density) \<Rightarrow>
           if ier \<noteq> 0 then Inl DataFilesNotFound
           else Inr (if density < 0.0 then 0.0 else density))"

text \<open>
  \<open>TEC\<close> and \<open>BendingAngle\<close> return their result together with the positions at which
  they called \<open>ElectronDensity\<close>, in call order. The loop counter of the source is not read
  in either loop body, so the loops recurse on the number of iterations left.
\<close>

fun TEC_loop ::
  "env \<Rightarrow> engine \<Rightarrow> Rvector3 \<Rightarrow> nat \<Rightarrow> Rvector3 \<Rightarrow> real \<Rightarrow> Rvector3 list
     \<Rightarrow> (error + real) \<times> Rvector3 list" where
  "TEC_loop X e dR 0 p1 tec calls = (Inr tec, calls)"
| "TEC_loop X e dR (Suc n) p1 tec calls =
     (let p2 = vadd p1 dR;
          mid = vdivs (vadd p1 p2) 2
      in (case ElectronDensity X e mid of
            Inl err \<Rightarrow> (Inl err, calls @ [mid])
          | Inr electdensity \<Rightarrow>
              (let ds = GetMagnitude (vsub p2 p1) * KM_TO_M
               in TEC_loop X e dR n p2 (tec + electdensity * ds) (calls @ [mid]))))"

definition TEC :: "env \<Rightarrow> engine \<Rightarrow> (error + real) \<times> Rvector3 list" where
  "TEC X e =
     (let s = vsub (spacecraftLoc e) (stationLoc e);
          a = dot s s;
          b = dot (smul 2.0 (stationLoc e)) s;
          c = dot (stationLoc e) (stationLoc e) - (earthRadius e + IONOSPHERE_MAX_ALTITUDE)\<^sup>2;
          discriminant = b * b - 4.0 * a * c
      in if discriminant \<le> 0 then (Inr 0, [])
         else
           let d1 = (- b - sqrt (b * b - 4.0 * a * c)) / (2.0 * a);
               d2 = (- b + sqrt (b * b - 4.0 * a * c)) / (2.0 * a)
           in if (d1 > 1 \<and> d2 > 1) \<or> (d1 < 0 \<and> d2 < 0) then (Inr 0, [])
              else
                let d1 = max d1 0;
                    d2 = min d2 1;
                    start = vadd (stationLoc e) (smul d1 s);
                    endpt = vadd (stationLoc e) (smul d2 s);
                    dR = vdivs (vsub endpt start) (real NUM_OF_INTERVALS)
                in TEC_loop X e dR NUM_OF_INTERVALS start 0.0 [])"

text \<open>
  The angle between the range vector and a position: the source takes the arc cosine of the
  dot product of the two unit vectors.
\<close>

definition incidence :: "env \<Rightarrow> Rvector3 \<Rightarrow> Rvector3 \<Rightarrow> error + real" where
  "incidence X rangeVec r =
     (case UnitVector X rangeVec of
        None \<Rightarrow> Inl ZeroVector
      | Some u \<Rightarrow> (case UnitVector X r of
                     None \<Rightarrow> Inl ZeroVector
                   | Some w \<Rightarrow> Inr (arccos (dot u w))))"

fun Bending_loop ::
  "env \<Rightarrow> engine \<Rightarrow> Rvector3 \<Rightarrow> Rvector3 \<Rightarrow> real \<Rightarrow> nat \<Rightarrow> Rvector3 \<Rightarrow> real \<Rightarrow> real \<Rightarrow> real
     \<Rightarrow> Rvector3 list \<Rightarrow> (error + real) \<times> Rvector3 list" where
  "Bending_loop X e rangeVec dR freq 0 r_i1 theta_i1 n_i1 dtheta_i1 calls =
     (Inr dtheta_i1, calls)"
| "Bending_loop X e rangeVec dR freq (Suc i) r_i1 theta_i1 n_i1 dtheta_i1 calls =
     (let r_i = vsub r_i1 dR
      in (case ElectronDensity X e r_i of
            Inl err \<Rightarrow> (Inl err, calls @ [r_i])
          | Inr density_i \<Rightarrow>
              (let n_i = 1 - 40.3 * density_i / (freq * freq);
                   dtheta = ((n_i1 - n_i) / n_i) * tan theta_i1;
                   dtheta_i1 = dtheta_i1 + dtheta
               in (case incidence X rangeVec r_i of
                     Inl err \<Rightarrow> (Inl err, calls @ [r_i])
                   | Inr ang \<Rightarrow>
                       Bending_loop X e rangeVec dR freq i r_i (ang - dtheta_i1) n_i dtheta_i1
                         (calls @ [r_i])))))"

text \<open>
  Step 2 of \<^verbatim>\<open>BendingAngle\<close> (\<^verbatim>\<open>// 2. Calculate angle correction\<close>), on the clipped segment
  from \<open>start\<close> to \<open>endpt\<close>.
\<close>

definition angle_correction ::
  "env \<Rightarrow> engine \<Rightarrow> Rvector3 \<Rightarrow> Rvector3 \<Rightarrow> (error + real) \<times> Rvector3 list" where
  "angle_correction X e start endpt =
     (let rangeVec = vsub endpt start;
          dR = vdivs rangeVec (real NUM_OF_INTERVALS);
          r_i1 = endpt;
          freq = SPEED_OF_LIGHT_VACUUM / waveLength e
      in (case incidence X rangeVec r_i1 of
            Inl err \<Rightarrow> (Inl err, [])
          | Inr theta_i1 \<Rightarrow>
              (case ElectronDensity X e r_i1 of
                 Inl err \<Rightarrow> (Inl err, [r_i1])
               | Inr density_i1 \<Rightarrow>
                   (let n_i1 = 1 - 40.3 * density_i1 / (freq * freq)
                    in (case Bending_loop X e rangeVec dR freq NUM_OF_INTERVALS r_i1
                               theta_i1 n_i1 0.0 [r_i1] of
                          (Inl err, calls) \<Rightarrow> (Inl err, calls)
                        | (Inr dtheta_i1, calls) \<Rightarrow> (Inr (- dtheta_i1), calls))))))"

definition BendingAngle :: "env \<Rightarrow> engine \<Rightarrow> (error + real) \<times> Rvector3 list" where
  "BendingAngle X e =
     (let s = vsub (spacecraftLoc e) (stationLoc e);
          a = dot s s;
          b = dot (smul 2.0 (stationLoc e)) s;
          c = dot (stationLoc e) (stationLoc e) - (earthRadius e + IONOSPHERE_MAX_ALTITUDE)\<^sup>2;
          discriminant = b * b - 4.0 * a * c
      in if discriminant \<le> 0 then (Inr 0, [])
         else
           let d1 = (- b - sqrt (b * b - 4.0 * a * c)) / (2.0 * a);
               d2 = (- b + sqrt (b * b - 4.0 * a * c)) / (2.0 * a)
           in if (d1 > 1 \<and> d2 > 1) \<or> (d1 < 0 \<and> d2 < 0) then (Inr 0, [])
              else
                let d1 = max d1 0;
                    d2 = min d2 1;
                    start = vadd (stationLoc e) (smul d1 s);
                    endpt = vadd (stationLoc e) (smul d2 s)
                in angle_correction X e start endpt)"

subsection \<open>The physics model: CalculateIRI2007\<close>

text \<open>
  The first test of \<^verbatim>\<open>CalculateIRI2007\<close>, against the range of ig\_rz.dat: outside it, the
  warning is shown when \<^verbatim>\<open>igrz_WarningCount\<close> is zero, and the count is incremented.
\<close>

definition igrz_range_check :: "engine \<Rightarrow> engine" where
  "igrz_range_check e =
     (let mjdate = yyyy e * 10000 + mmdd e
      in if igrz_yyyymmddMin e > mjdate \<or> mjdate \<ge> igrz_yyyymmddMax e
         then (if igrz_WarningCount e = 0
               then e\<lparr>shown := shown e @
                         [IgrzRangeWarning (epoch e) (igrz_yyyymmddMin e) (igrz_yyyymmddMax e)],
                       igrz_WarningCount := igrz_WarningCount e + 1\<rparr>
               else e)
         else e)"

definition CalculateIRI2007 :: "env \<Rightarrow> engine \<Rightarrow> engine \<times> (error + real list)" where
  "CalculateIRI2007 X e0 =
     (case (if \<not> isInitialized e0 then Initialize X e0 else (e0, Inr True)) of
        (e1, Inl err) \<Rightarrow> (e1, Inl err)
      | (e1, Inr _) \<Rightarrow>
         (let mjdate = yyyy e1 * 10000 + mmdd e1;
              e = igrz_range_check e1
          in if ap_yyyymmddMin e > mjdate \<or> mjdate \<ge> ap_yyyymmddMax e
             then (e, Inl EpochOutOfRange)
             else
               let freq = SPEED_OF_LIGHT_VACUUM / waveLength e
               in (case fst (TEC X e) of
                     Inl err \<Rightarrow> (e, Inl err)
                   | Inr tec \<Rightarrow>
                       (let drho = 40.3 * tec / (freq * freq)
                        in (case fst (BendingAngle X e) of
                              Inl err \<Rightarrow> (e, Inl err)
                            | Inr dphi \<Rightarrow>
                                (let dtime = drho / SPEED_OF_LIGHT_VACUUM
                                 in (e, Inr [drho, dphi, dtime])))))))"

subsection \<open>The record table: time tokens\<close>

text \<open>
  \<^verbatim>\<open>std::string::substr(pos, n)\<close> throws when \<open>pos\<close> is beyond the end of the string;
  \<open>substr_from\<close> is the one-argument form \<^verbatim>\<open>substr(pos)\<close>.
\<close>

definition substr :: "string \<Rightarrow> nat \<Rightarrow> nat \<Rightarrow> error + string" where
  "substr s pos n = (if pos > length s then Inl StdOutOfRange else Inr (take n (drop pos s)))"

definition substr_from :: "string \<Rightarrow> nat \<Rightarrow> error + string" where
  "substr_from s pos = (if pos > length s then Inl StdOutOfRange else Inr (drop pos s))"

text \<open>
  \<^verbatim>\<open>GmatStringUtil::ToInteger(str, var)\<close> and \<^verbatim>\<open>ToReal(str, var)\<close> write \<open>var\<close> only when the
  conversion succeeds; the second argument is the value \<open>var\<close> held before the call.
\<close>

definition read_Integer :: "env \<Rightarrow> string \<Rightarrow> int \<Rightarrow> int" where
  "read_Integer X str var = (case ToInteger X str of Some v \<Rightarrow> v | None \<Rightarrow> var)"

definition read_Real :: "env \<Rightarrow> string \<Rightarrow> real \<Rightarrow> real" where
  "read_Real X str var = (case ToReal X str of Some v \<Rightarrow> v | None \<Rightarrow> var)"

text \<open>
  \<open>GetTRK223Fields\<close> is \<^verbatim>\<open>GetTRK223Time\<close> up to the call of \<^verbatim>\<open>ModifiedJulianDate\<close>: the
  year after the two-digit normalisation, month, day, hour, minute and second.
\<close>

definition GetTRK223Fields ::
  "env \<Rightarrow> string \<Rightarrow> error + (int \<times> int \<times> int \<times> int \<times> int \<times> real)" where
  "GetTRK223Fields X TRK223TimeLine =
     (case substr TRK223TimeLine 0 2 of
        Inl err \<Rightarrow> Inl err
      | Inr s0 \<Rightarrow>
         (let year = read_Integer X s0 0;
              year = (if year \<ge> 69 \<and> year < 1000 then year + 1900
                      else if year < 69 then year + 2000
                      else year)
          in (case substr TRK223TimeLine 3 2 of
                Inl err \<Rightarrow> Inl err
              | Inr s1 \<Rightarrow>
                 (let monthTRK = read_Integer X s1 0
                  in (case substr TRK223TimeLine 6 2 of
                        Inl err \<Rightarrow> Inl err
                      | Inr s2 \<Rightarrow>
                         (let day = read_Integer X s2 0
                          in (case substr TRK223TimeLine 9 2 of
                                Inl err \<Rightarrow> Inl err
                              | Inr s3 \<Rightarrow>
                                 (let hour = read_Integer X s3 0
                                  in (case substr TRK223TimeLine 12 2 of
                                        Inl err \<Rightarrow> Inl err
                                      | Inr s4 \<Rightarrow>
                                         (let minute = read_Integer X s4 0
                                          in (if length TRK223TimeLine > 14
                                              then (case substr_from TRK223TimeLine 15 of
                                                      Inl err \<Rightarrow> Inl err
                                                    | Inr s5 \<Rightarrow>
                                                        Inr (year, monthTRK, day, hour, minute,
                                                             read_Real X s5 0))
                                              else Inr (year, monthTRK, day, hour, minute,
                                                        0))))))))))))"

definition GetTRK223Time :: "env \<Rightarrow> string \<Rightarrow> error + real" where
  "GetTRK223Time X TRK223TimeLine =
     (case GetTRK223Fields X TRK223TimeLine of
        Inl err \<Rightarrow> Inl err
      | Inr (year, monthTRK, day, hour, minute, second) \<Rightarrow>
          Inr (ModifiedJulianDate X year monthTRK day hour minute second))"

subsection \<open>The record table: evaluating a record\<close>

text \<open>
  The TRIG loop of the source steps \<open>i\<close> by two (one \<^verbatim>\<open>i++\<close> in the body, one in the loop
  header), tests only \<^verbatim>\<open>i < coefs.size()\<close> and reads \<^verbatim>\<open>coefs[i]\<close> and \<^verbatim>\<open>coefs[i + 1]\<close>.
\<close>

function TRIG_loop :: "real list \<Rightarrow> real \<Rightarrow> nat \<Rightarrow> int \<Rightarrow> real \<Rightarrow> error + real" where
  "TRIG_loop coefs Time i count drho =
     (if i < length coefs then
        (if i + 1 < length coefs then
           TRIG_loop coefs Time (i + 2) (count + 1)
             (drho + coefs ! i * cos (Time * real_of_int count)
                   + coefs ! (i + 1) * sin (Time * real_of_int count))
         else Inl (ReadPastEnd (i + 1) (length coefs)))
      else Inr drho)"
  by pat_completeness auto
termination
  by (relation "measure (\<lambda>(coefs, Time, i, count, drho). length coefs - i)") auto

declare TRIG_loop.simps [simp del]

function NRMPOW_loop :: "real list \<Rightarrow> real \<Rightarrow> nat \<Rightarrow> real \<Rightarrow> real" where
  "NRMPOW_loop coefs Time i drho =
     (if i < length coefs then NRMPOW_loop coefs Time (i + 1) (drho + coefs ! i * Time ^ i)
      else drho)"
  by pat_completeness auto
termination
  by (relation "measure (\<lambda>(coefs, Time, i, drho). length coefs - i)") auto

declare NRMPOW_loop.simps [simp del]

text \<open>
  \<open>TRK223Model\<close> is the chain of branches on the model type in \<^verbatim>\<open>TRK223Solver\<close>: the
  correction before it is rescaled to the signal frequency.
\<close>

definition TRK223Model :: "string \<Rightarrow> real list \<Rightarrow> real \<Rightarrow> real \<Rightarrow> real \<Rightarrow> error + real" where
  "TRK223Model mType coefs epochStart epochEnd epochTime =
     (if mType = ''CONST'' then
        (if 0 < length coefs then Inr (coefs ! 0) else Inl (ReadPastEnd 0 (length coefs)))
      else if mType = ''TRIG'' then
        (let Time = epochTime * 86400;
             spanStart = epochStart * 86400
         in if 0 < length coefs then
              (let Time = TWO_PI * (Time - spanStart) / coefs ! 0
               in if 1 < length coefs then TRIG_loop coefs Time 2 1 (coefs ! 1)
                  else Inl (ReadPastEnd 1 (length coefs)))
            else Inl (ReadPastEnd 0 (length coefs)))
      else if mType = ''NRMPOW'' then
        (let Time = epochTime * 86400;
             spanStart = epochStart * 86400;
             spanEnd = epochEnd * 86400;
             Time = 2 * ((Time - spanStart) / (spanEnd - spanStart)) - 1
         in Inr (NRMPOW_loop coefs Time 0 0))
      else Inl (UnsupportedMathFormat mType))"

definition TRK223Solver :: "env \<Rightarrow> engine \<Rightarrow> dsn_row \<Rightarrow> real \<Rightarrow> error + real" where
  "TRK223Solver X e TRK223Line epochTime =
     (let mType = modelType TRK223Line;
          coefs = ToRealArray X (coefCsv TRK223Line)
      in (case GetTRK223Time X (validStart TRK223Line) of
            Inl err \<Rightarrow> Inl err
          | Inr epochStart \<Rightarrow>
             (case GetTRK223Time X (validEnd TRK223Line) of
                Inl err \<Rightarrow> Inl err
              | Inr epochEnd \<Rightarrow>
                 (case TRK223Model mType coefs epochStart epochEnd epochTime of
                    Inl err \<Rightarrow> Inl err
                  | Inr drho \<Rightarrow>
                     (let freq = SPEED_OF_LIGHT_VACUUM / waveLength e;
                          freqSBand = 2295.0 * 1000000.0
                      in Inr (drho * (freqSBand / freq) * (freqSBand / freq)))))))"

subsection \<open>The empirical model: CalculateTRK223\<close>

text \<open>
  The first block of \<^verbatim>\<open>CalculateTRK223\<close>: the three abbreviations. It yields the station
  identifier and the complex name as they stand after the block.
\<close>

definition expand_abbreviation :: "string \<Rightarrow> string \<times> string" where
  "expand_abbreviation gid =
     (if gid = ''GDS'' then (''DSN(C10)'', ''DSN(C10)'')
      else if gid = ''CAN'' then (''DSN(C40)'', ''DSN(C40)'')
      else if gid = ''MAD'' then (''DSN(C60)'', ''DSN(C60)'')
      else (gid, []))"

text \<open>
  The condition \<^verbatim>\<open>GetTRK223Time(row[4]) <= epoch && GetTRK223Time(row[5]) >= epoch\<close>; the
  second time is parsed only when the first comparison holds.
\<close>

definition brackets :: "env \<Rightarrow> dsn_row \<Rightarrow> real \<Rightarrow> error + bool" where
  "brackets X row ep =
     (case GetTRK223Time X (validStart row) of
        Inl err \<Rightarrow> Inl err
      | Inr ts \<Rightarrow>
          if ts \<le> ep then
            (case GetTRK223Time X (validEnd row) of
               Inl err \<Rightarrow> Inl err
             | Inr te \<Rightarrow> Inr (te \<ge> ep))
          else Inr False)"

text \<open>The body of the table scan for row \<open>i\<close>; the pair is \<^verbatim>\<open>ionoLine[0], ionoLine[1]\<close>.\<close>

definition scan_row ::
  "env \<Rightarrow> real \<Rightarrow> string \<Rightarrow> string \<Rightarrow> string \<Rightarrow> dsn_row \<Rightarrow> int \<Rightarrow> int \<times> int
     \<Rightarrow> error + int \<times> int" where
  "scan_row X ep spacecraftName DSNComplexName gid row i ionoLine =
     (if spacecraftKey row = spacecraftName then
        (if signalType row = ''DOPRNG'' \<or> signalType row = ''RANGE'' then
           (if facilityKey row = DSNComplexName then
              (case brackets X row ep of
                 Inl err \<Rightarrow> Inl err
               | Inr inside \<Rightarrow>
                   if inside then
                     (if recordType row = ''CHPART'' then Inr (i, snd ionoLine)
                      else Inr ionoLine)
                   else Inr ionoLine)
            else if facilityKey row = gid then
              (case brackets X row ep of
                 Inl err \<Rightarrow> Inl err
               | Inr inside \<Rightarrow>
                   if inside then
                     (if recordType row = ''CHPART'' then Inr (fst ionoLine, i)
                      else Inr ionoLine)
                   else Inr ionoLine)
            else Inr ionoLine)
         else Inr ionoLine)
      else Inr ionoLine)"

fun scan_rows ::
  "env \<Rightarrow> real \<Rightarrow> string \<Rightarrow> string \<Rightarrow> string \<Rightarrow> dsn_row list \<Rightarrow> int \<Rightarrow> int \<times> int
     \<Rightarrow> error + int \<times> int" where
  "scan_rows X ep spacecraftName DSNComplexName gid [] i ionoLine = Inr ionoLine"
| "scan_rows X ep spacecraftName DSNComplexName gid (row # rows) i ionoLine =
     (case scan_row X ep spacecraftName DSNComplexName gid row i ionoLine of
        Inl err \<Rightarrow> Inl err
      | Inr ionoLine' \<Rightarrow>
          scan_rows X ep spacecraftName DSNComplexName gid rows (i + 1) ionoLine')"

text \<open>
  The blocks of \<^verbatim>\<open>CalculateTRK223\<close> that follow the abbreviations: the station number read
  off the identifier (the local \<^verbatim>\<open>stationNumber\<close> keeps the value it happens to hold when the
  conversion fails), the identifier wrapped as \<^verbatim>\<open>DSN(...)\<close>, the complex name after the three
  tests on the station number, and the spacecraft key.
\<close>

definition station_number :: "env \<Rightarrow> string \<Rightarrow> int" where
  "station_number X gid =
     (if take 1 gid = ''C''
      then read_Integer X (drop 1 gid) (stationNumber_init X)
      else read_Integer X gid (stationNumber_init X))"

definition DSN_station_id :: "string \<Rightarrow> string" where
  "DSN_station_id gid =
     (if length gid < 3 then ''DSN(0'' @ gid @ '')'' else ''DSN('' @ gid @ '')'')"

definition complex_of_number :: "int \<Rightarrow> string \<Rightarrow> string" where
  "complex_of_number stationNumber DSNComplexName =
     (if stationNumber < 30 then ''DSN(C10)''
      else if stationNumber < 50 \<and> stationNumber \<ge> 30 then ''DSN(C40)''
      else if stationNumber \<ge> 50 then ''DSN(C60)''
      else DSNComplexName)"

definition spacecraft_name :: "env \<Rightarrow> int \<Rightarrow> string" where
  "spacecraft_name X scid = ''SCID('' @ RemoveAllBlanks X (ToString X scid) @ '')''"

definition CalculateTRK223 :: "env \<Rightarrow> engine \<Rightarrow> engine \<times> (error + real list)" where
  "CalculateTRK223 X e0 =
     (case expand_abbreviation (groundStationId e0) of
        (gid, DSNComplexName) \<Rightarrow>
          (let stationNumber = station_number X gid;
               gid = DSN_station_id gid;
               e = e0\<lparr>groundStationId := gid\<rparr>;
               DSNComplexName = complex_of_number stationNumber DSNComplexName;
               spacecraftName = spacecraft_name X (spacecraftId e)
           in (case scan_rows X (epoch e) spacecraftName DSNComplexName gid (DSNDatabase e)
                      0 (- 1, - 1) of
                 Inl err \<Rightarrow> (e, Inl err)
               | Inr ionoLine \<Rightarrow>
                   if fst ionoLine \<noteq> - 1 then
                     (case TRK223Solver X e (DSNDatabase e ! nat (fst ionoLine)) (epoch e) of
                        Inl err \<Rightarrow> (e, Inl err)
                      | Inr correction0 \<Rightarrow>
                          (case (if snd ionoLine \<noteq> - 1
                                 then (case TRK223Solver X e
                                              (DSNDatabase e ! nat (snd ionoLine)) (epoch e) of
                                         Inl err \<Rightarrow> Inl err
                                       | Inr c1 \<Rightarrow> Inr (correction0 + c1))
                                 else Inr correction0) of
                             Inl err \<Rightarrow> (e, Inl err)
                           | Inr correction \<Rightarrow>
                               (let drho = correction;
                                    dE = 0
                                in (e, Inr [drho, dE, drho / SPEED_OF_LIGHT_VACUUM]))))
                   else (e, Inl RecordNotFound))))"

subsection \<open>The dispatcher\<close>

definition Correction :: "env \<Rightarrow> engine \<Rightarrow> engine \<times> (error + real list)" where
  "Correction X e =
     (if modelTypeName e = ''IRI2007'' then CalculateIRI2007 X e
      else if modelTypeName e = ''TRK-2-23'' then CalculateTRK223 X e
      else (e\<lparr>shown := shown e @ [UnrecognizedModelMessage (modelTypeName e)]\<rparr>,
            Inl (UnrecognizedModel (modelTypeName e))))"

section \<open>Vocabulary of the statements\<close>

subsection \<open>The shell quadratic\<close>

text \<open>
  The locals \<^verbatim>\<open>a\<close>, \<^verbatim>\<open>b\<close>, \<^verbatim>\<open>c\<close>, \<^verbatim>\<open>discriminant\<close>, \<^verbatim>\<open>d1\<close> and \<^verbatim>\<open>d2\<close> that \<^verbatim>\<open>TEC\<close> and
  \<^verbatim>\<open>BendingAngle\<close> compute before they clip the roots, as functions of the engine.
\<close>

definition quad_a :: "engine \<Rightarrow> real" where
  "quad_a e = (let s = vsub (spacecraftLoc e) (stationLoc e) in dot s s)"

definition quad_b :: "engine \<Rightarrow> real" where
  "quad_b e = (let s = vsub (spacecraftLoc e) (stationLoc e) in dot (smul 2.0 (stationLoc e)) s)"

definition quad_c :: "engine \<Rightarrow> real" where
  "quad_c e = dot (stationLoc e) (stationLoc e) - (earthRadius e + IONOSPHERE_MAX_ALTITUDE)\<^sup>2"

definition discriminant :: "engine \<Rightarrow> real" where
  "discriminant e = quad_b e * quad_b e - 4.0 * quad_a e * quad_c e"

definition root1 :: "engine \<Rightarrow> real" where
  "root1 e = (- quad_b e - sqrt (quad_b e * quad_b e - 4.0 * quad_a e * quad_c e)) / (2.0 * quad_a e)"

definition root2 :: "engine \<Rightarrow> real" where
  "root2 e = (- quad_b e + sqrt (quad_b e * quad_b e - 4.0 * quad_a e * quad_c e)) / (2.0 * quad_a e)"

subsection \<open>Dates, windows and warnings\<close>

text \<open>
  The local \<^verbatim>\<open>mjdate\<close> of \<^verbatim>\<open>CalculateIRI2007\<close> and the conditions of its two range tests.
\<close>

definition mjdate :: "engine \<Rightarrow> int" where
  "mjdate e = yyyy e * 10000 + mmdd e"

definition outside_igrz :: "engine \<Rightarrow> bool" where
  "outside_igrz e = (igrz_yyyymmddMin e > mjdate e \<or> mjdate e \<ge> igrz_yyyymmddMax e)"

definition outside_ap :: "engine \<Rightarrow> bool" where
  "outside_ap e = (ap_yyyymmddMin e > mjdate e \<or> mjdate e \<ge> ap_yyyymmddMax e)"

text \<open>The number of ig\_rz range warnings an engine has shown.\<close>

fun is_igrz_warning :: "message \<Rightarrow> bool" where
  "is_igrz_warning (IgrzRangeWarning ep lo hi) = True"
| "is_igrz_warning (UnrecognizedModelMessage n) = False"

definition igrz_warnings :: "engine \<Rightarrow> nat" where
  "igrz_warnings e = length (filter is_igrz_warning (shown e))"

text \<open>
  The set-then-call use of one engine instance: a request sets the station and spacecraft
  positions, the wavelength and the time, then calls \<open>CalculateIRI2007\<close>; the instance keeps
  its state whether the call returns or throws. A session serves a list of requests in order.
\<close>

record request =
  at_station :: Rvector3
  at_spacecraft :: Rvector3
  at_wavelength :: real
  at_epoch :: real

definition request_engine :: "env \<Rightarrow> engine \<Rightarrow> request \<Rightarrow> engine" where
  "request_engine X e r =
     SetTime X (at_epoch r)
       (SetWaveLength (at_wavelength r)
          (SetSpacecraftPosition (at_spacecraft r)
             (SetStationPosition (at_station r) e)))"

definition serve_IRI2007 :: "env \<Rightarrow> engine \<Rightarrow> request \<Rightarrow> engine" where
  "serve_IRI2007 X e r = fst (CalculateIRI2007 X (request_engine X e r))"

definition session_IRI2007 :: "env \<Rightarrow> engine \<Rightarrow> request list \<Rightarrow> engine" where
  "session_IRI2007 X e rs = foldl (serve_IRI2007 X) e rs"

definition request_date :: "env \<Rightarrow> request \<Rightarrow> int" where
  "request_date X r = (case UTCGregorian X (at_epoch r) of (y, md, h) \<Rightarrow> y * 10000 + md)"

definition request_outside_igrz :: "env \<Rightarrow> engine \<Rightarrow> request \<Rightarrow> bool" where
  "request_outside_igrz X e r =
     (igrz_yyyymmddMin e > request_date X r \<or> request_date X r \<ge> igrz_yyyymmddMax e)"

subsection \<open>Time tokens and the TRIG series\<close>

text \<open>The year that \<open>GetTRK223Time\<close> passes to the calendar routine.\<close>

definition TRK223Year :: "env \<Rightarrow> string \<Rightarrow> error + int" where
  "TRK223Year X TRK223TimeLine =
     (case GetTRK223Fields X TRK223TimeLine of
        Inl err \<Rightarrow> Inl err
      | Inr (year, rest) \<Rightarrow> Inr year)"

text \<open>
  A sum of cosine and sine terms whose amplitudes are the successive pairs of a list, the
  first pair at harmonic index \<open>k\<close>; a last element without a partner adds nothing.
\<close>

fun fourier_pairs :: "real list \<Rightarrow> real \<Rightarrow> nat \<Rightarrow> real" where
  "fourier_pairs (a # b # rest) phase k =
     a * cos (phase * real k) + b * sin (phase * real k) + fourier_pairs rest phase (Suc k)"
| "fourier_pairs [a] phase k = 0"
| "fourier_pairs [] phase k = 0"

definition TRIG_phase :: "real list \<Rightarrow> real \<Rightarrow> real \<Rightarrow> real" where
  "TRIG_phase coefs epochStart t = 2 * pi * (t - epochStart) * 86400 / coefs ! 0"

text \<open>
  The series in the words of the specification: the first coefficient sets the angular
  frequency, and the coefficients after the first are the cosine and sine amplitude pairs
  of the harmonic indices 1, 2, 3, ...
\<close>

definition TRIG_series_claimed :: "real list \<Rightarrow> real \<Rightarrow> real \<Rightarrow> real" where
  "TRIG_series_claimed coefs epochStart t =
     fourier_pairs (drop 1 coefs) (TRIG_phase coefs epochStart t) 1"

subsection \<open>Stations, windows and matches, in the words of the specification\<close>

text \<open>
  The complex of a station as the specification assigns it: the three abbreviations name
  their complex, and a station given by its number (the identifier is the number, or the
  letter C and the number) belongs to the complex of the range the number falls in, below
  30, from 30 to 49, or from 50 on. An identifier that is neither has no complex.
\<close>

definition complex_of_station_number :: "int \<Rightarrow> string" where
  "complex_of_station_number n =
     (if n < 30 then ''DSN(C10)'' else if n < 50 then ''DSN(C40)'' else ''DSN(C60)'')"

definition station_number_of :: "env \<Rightarrow> string \<Rightarrow> int option" where
  "station_number_of X gid =
     (if gid = ''GDS'' \<or> gid = ''CAN'' \<or> gid = ''MAD'' then None
      else if take 1 gid = ''C'' then ToInteger X (drop 1 gid)
      else ToInteger X gid)"

definition station_complex :: "env \<Rightarrow> string \<Rightarrow> string option" where
  "station_complex X gid =
     (if gid = ''GDS'' then Some ''DSN(C10)''
      else if gid = ''CAN'' then Some ''DSN(C40)''
      else if gid = ''MAD'' then Some ''DSN(C60)''
      else map_option complex_of_station_number (station_number_of X gid))"

text \<open>The station key under which the table lists a single station.\<close>

definition station_key :: "engine \<Rightarrow> string" where
  "station_key e = DSN_station_id (fst (expand_abbreviation (groundStationId e)))"

text \<open>
  The validity window of a row: its two time tokens as times, when both can be read. An
  epoch is in the window when it lies between the two, the ends included; the glossary of
  the specification has the window open at its end.
\<close>

definition validity_window :: "env \<Rightarrow> dsn_row \<Rightarrow> (real \<times> real) option" where
  "validity_window X row =
     (case GetTRK223Time X (validStart row) of
        Inl err \<Rightarrow> None
      | Inr ts \<Rightarrow>
         (case GetTRK223Time X (validEnd row) of
            Inl err \<Rightarrow> None
          | Inr te \<Rightarrow> Some (ts, te)))"

definition in_window :: "env \<Rightarrow> real \<Rightarrow> dsn_row \<Rightarrow> bool" where
  "in_window X ep row =
     (case validity_window X row of None \<Rightarrow> False | Some (ts, te) \<Rightarrow> ts \<le> ep \<and> ep \<le> te)"

definition in_window_claimed :: "env \<Rightarrow> real \<Rightarrow> dsn_row \<Rightarrow> bool" where
  "in_window_claimed X ep row =
     (case validity_window X row of None \<Rightarrow> False | Some (ts, te) \<Rightarrow> ts \<le> ep \<and> ep < te)"

text \<open>
  A row matches at complex level when it carries the spacecraft key, one of the two signal
  types, the complex of the engine's station, a window around the engine's epoch and the
  marker CHPART; it matches at station level when it carries the station key instead of the
  complex. The claimed variants use the window of the glossary.
\<close>

definition complex_level_match :: "env \<Rightarrow> engine \<Rightarrow> dsn_row \<Rightarrow> bool" where
  "complex_level_match X e row =
     (spacecraftKey row = spacecraft_name X (spacecraftId e)
      \<and> (signalType row = ''DOPRNG'' \<or> signalType row = ''RANGE'')
      \<and> station_complex X (groundStationId e) = Some (facilityKey row)
      \<and> in_window X (epoch e) row
      \<and> recordType row = ''CHPART'')"

definition station_level_match :: "env \<Rightarrow> engine \<Rightarrow> dsn_row \<Rightarrow> bool" where
  "station_level_match X e row =
     (if station_complex X (groundStationId e) = Some (facilityKey row) then False
      else (spacecraftKey row = spacecraft_name X (spacecraftId e)
            \<and> (signalType row = ''DOPRNG'' \<or> signalType row = ''RANGE'')
            \<and> facilityKey row = station_key e
            \<and> in_window X (epoch e) row
            \<and> recordType row = ''CHPART''))"

definition complex_level_match_claimed :: "env \<Rightarrow> engine \<Rightarrow> dsn_row \<Rightarrow> bool" where
  "complex_level_match_claimed X e row =
     (spacecraftKey row = spacecraft_name X (spacecraftId e)
      \<and> (signalType row = ''DOPRNG'' \<or> signalType row = ''RANGE'')
      \<and> station_complex X (groundStationId e) = Some (facilityKey row)
      \<and> in_window_claimed X (epoch e) row
      \<and> recordType row = ''CHPART'')"

text \<open>
  The rows whose time tokens the scan reads are those that carry the spacecraft key, one of
  the two signal types and the complex or the station key. A time token of at least twelve
  characters is one on which no \<^verbatim>\<open>substr\<close> of \<^verbatim>\<open>GetTRK223Time\<close> throws; the fixed-width
  tokens \<^verbatim>\<open>YY MM DD HH MM[ SS.sss]\<close> have fourteen or more.
\<close>

definition keyed_row :: "env \<Rightarrow> engine \<Rightarrow> dsn_row \<Rightarrow> bool" where
  "keyed_row X e row =
     (spacecraftKey row = spacecraft_name X (spacecraftId e)
      \<and> (signalType row = ''DOPRNG'' \<or> signalType row = ''RANGE'')
      \<and> (station_complex X (groundStationId e) = Some (facilityKey row)
         \<or> facilityKey row = station_key e))"

definition well_formed_times :: "dsn_row \<Rightarrow> bool" where
  "well_formed_times row = (12 \<le> length (validStart row) \<and> 12 \<le> length (validEnd row))"

definition readable_table :: "env \<Rightarrow> engine \<Rightarrow> bool" where
  "readable_table X e =
     list_all (\<lambda>row. if keyed_row X e row then well_formed_times row else True) (DSNDatabase e)"

subsection \<open>What the scan computes\<close>

text \<open>
  The tests of the scan on one row, with the keys the code has computed, and the index,
  counted from \<open>i\<close>, of the last row that satisfies \<open>P\<close>, or \<open>found\<close> when there is none:
  what the scan leaves in an entry of \<^verbatim>\<open>ionoLine\<close>.
\<close>

definition scan_reads :: "string \<Rightarrow> string \<Rightarrow> string \<Rightarrow> dsn_row \<Rightarrow> bool" where
  "scan_reads spacecraftName DSNComplexName gid row =
     (spacecraftKey row = spacecraftName
      \<and> (signalType row = ''DOPRNG'' \<or> signalType row = ''RANGE'')
      \<and> (facilityKey row = DSNComplexName \<or> facilityKey row = gid))"

definition row_matches_complex :: "env \<Rightarrow> real \<Rightarrow> string \<Rightarrow> string \<Rightarrow> dsn_row \<Rightarrow> bool" where
  "row_matches_complex X ep spacecraftName DSNComplexName row =
     (spacecraftKey row = spacecraftName
      \<and> (signalType row = ''DOPRNG'' \<or> signalType row = ''RANGE'')
      \<and> facilityKey row = DSNComplexName
      \<and> in_window X ep row
      \<and> recordType row = ''CHPART'')"

definition row_matches_station ::
  "env \<Rightarrow> real \<Rightarrow> string \<Rightarrow> string \<Rightarrow> string \<Rightarrow> dsn_row \<Rightarrow> bool" where
  "row_matches_station X ep spacecraftName DSNComplexName gid row =
     (if facilityKey row = DSNComplexName then False
      else (spacecraftKey row = spacecraftName
            \<and> (signalType row = ''DOPRNG'' \<or> signalType row = ''RANGE'')
            \<and> facilityKey row = gid
            \<and> in_window X ep row
            \<and> recordType row = ''CHPART''))"

fun last_match :: "(dsn_row \<Rightarrow> bool) \<Rightarrow> dsn_row list \<Rightarrow> int \<Rightarrow> int \<Rightarrow> int" where
  "last_match P [] i found = found"
| "last_match P (row # rows) i found = last_match P rows (i + 1) (if P row then i else found)"

section \<open>Sample inputs\<close>

text \<open>
  A stub environment and an engine on which the theorems are instantiated. The stub reads
  unsigned decimal integers, knows two coefficient fields, uses the usual calendar formula
  for the modified Julian date (reference epoch 5 Jan 1941 12:00) and answers every density
  query with the same value. The sample engine is initialised, holds one CONST record for
  station 26 and spacecraft 42, and has both positions above the shell.
\<close>

definition is_digit :: "char \<Rightarrow> bool" where
  "is_digit c = ((48::nat) \<le> of_char c \<and> of_char c \<le> (57::nat))"

definition example_ToInteger :: "string \<Rightarrow> int option" where
  "example_ToInteger s =
     (if s \<noteq> [] \<and> list_all is_digit s
      then Some (foldl (\<lambda>a c. 10 * a + (int (of_char c) - 48)) 0 s)
      else None)"

definition example_env :: env where
  "example_env =
     \<lparr>iri_sub = (\<lambda>pos iy md hour. (0, 100000000000)),
      UnitVector = (\<lambda>v. if GetMagnitude v = 0 then None else Some (vdivs v (GetMagnitude v))),
      MediaCorrection_Initialize = True,
      ap_first = (58, 1, 1),
      ap_last = (25, 6, 30),
      igrz_range = (1, 1958, 12, 2026),
      load_all_files = 0,
      UTCGregorian = (\<lambda>ep. (if ep < 33000 then 2020 else 2030, 615, 12)),
      ToInteger = example_ToInteger,
      ToReal = (\<lambda>s. None),
      ToRealArray =
        (\<lambda>s. if s = ''5.0'' then [5]
             else if s = ''86400,1,2'' then [86400, 1, 2]
             else []),
      ToString = (\<lambda>n. if n = 42 then '' 42'' else ''  0''),
      RemoveAllBlanks = filter (\<lambda>c. c \<noteq> CHR '' ''),
      ModifiedJulianDate =
        (\<lambda>y mo d h mi s.
           real_of_int (367 * y - (7 * (y + (mo + 9) div 12)) div 4 + (275 * mo) div 9 + d)
             + 1721013.5 - 2430000 + ((s / 60 + real_of_int mi) / 60 + real_of_int h) / 24),
      stationNumber_init = 0\<rparr>"

definition example_row :: dsn_row where
  "example_row =
     \<lparr>signalType = ''DOPRNG'', modelType = ''CONST'', coefCsv = ''5.0'',
      recordType = ''CHPART'', validStart = ''20 01 01 00 00'', validEnd = ''20 12 31 00 00'',
      facilityKey = ''DSN(C10)'', spacecraftKey = ''SCID(42)''\<rparr>"

definition example_station_row :: dsn_row where
  "example_station_row = example_row\<lparr>facilityKey := ''DSN(026)''\<rparr>"

definition example_engine :: engine where
  "example_engine =
     \<lparr>igrz_yyyymmddMin = 19580101, igrz_yyyymmddMax = 20261231,
      ap_yyyymmddMin = 19580101, ap_yyyymmddMax = 20250630,
      igrz_WarningCount = 0, isInitialized = True, modelTypeName = ''IRI2007'',
      waveLength = 0.13, epoch = 29000, yyyy = 2020, mmdd = 615, hours = 12,
      stationLoc = Rvector3 10000 0 0, spacecraftLoc = Rvector3 10000 1 0,
      earthRadius = 6378, groundStationId = ''26'', spacecraftId = 42,
      DSNDatabase = [example_row], shown = []\<rparr>"

text \<open>
  Variants of the sample: the station given by the abbreviation CAN with one record of the
  Canberra complex, the same station with records of the two other complexes, a record whose
  start token is cut short, and the epoch at the very end of the record's window.
\<close>

definition example_row_C40 :: dsn_row where
  "example_row_C40 = example_row\<lparr>facilityKey := ''DSN(C40)''\<rparr>"

definition example_row_C60 :: dsn_row where
  "example_row_C60 = example_row\<lparr>facilityKey := ''DSN(C60)''\<rparr>"

definition example_row_short :: dsn_row where
  "example_row_short = example_row\<lparr>validStart := ''20 01''\<rparr>"

definition example_CAN :: engine where
  "example_CAN = example_engine\<lparr>groundStationId := ''CAN'', DSNDatabase := [example_row_C40]\<rparr>"

definition example_CAN_others :: engine where
  "example_CAN_others =
     example_engine\<lparr>groundStationId := ''CAN'', DSNDatabase := [example_row, example_row_C60]\<rparr>"

definition example_short :: engine where
  "example_short = example_engine\<lparr>DSNDatabase := [example_row_short]\<rparr>"

definition example_at_end :: engine where
  "example_at_end = example_engine\<lparr>epoch := 29214.5\<rparr>"

definition example_both :: engine where
  "example_both = example_engine\<lparr>DSNDatabase := [example_row, example_station_row]\<rparr>"

text \<open>
  The same engine with the station on the ground and the spacecraft straight above it, far
  beyond the shell: the path crosses the ionosphere along 2000 km.
\<close>

definition example_crossing :: engine where
  "example_crossing =
     example_engine\<lparr>stationLoc := Rvector3 6378 0 0, spacecraftLoc := Rvector3 26378 0 0\<rparr>"

definition example_requests :: "request list" where
  "example_requests =
     [\<lparr>at_station = Rvector3 10000 0 0, at_spacecraft = Rvector3 10000 1 0,
       at_wavelength = 0.13, at_epoch = 29000\<rparr>,
      \<lparr>at_station = Rvector3 10000 0 0, at_spacecraft = Rvector3 10000 1 0,
       at_wavelength = 0.13, at_epoch = 40000\<rparr>]"


section \<open>The physics model: proofs\<close>

subsection \<open>What the range check leaves unchanged\<close>

lemma ElectronDensity_cong:
  "yyyy e' = yyyy e \<Longrightarrow> mmdd e' = mmdd e \<Longrightarrow> hours e' = hours e \<Longrightarrow>
   ElectronDensity X e' = ElectronDensity X e"
  by (rule ext) (simp add: ElectronDensity_def)

lemma TEC_loop_cong:
  "ElectronDensity X e' = ElectronDensity X e \<Longrightarrow>
   TEC_loop X e' dR n p1 tec calls = TEC_loop X e dR n p1 tec calls"
  by (induction n arbitrary: p1 tec calls) (simp_all add: Let_def split: sum.splits)

lemma Bending_loop_cong:
  "ElectronDensity X e' = ElectronDensity X e \<Longrightarrow>
   Bending_loop X e' rangeVec dR freq n r th ni dth calls =
   Bending_loop X e rangeVec dR freq n r th ni dth calls"
  by (induction n arbitrary: r th ni dth calls) (simp_all add: Let_def split: sum.splits)

lemma TEC_cong:
  assumes "stationLoc e' = stationLoc e" "spacecraftLoc e' = spacecraftLoc e"
    and "earthRadius e' = earthRadius e"
    and ed: "ElectronDensity X e' = ElectronDensity X e"
  shows "TEC X e' = TEC X e"
  unfolding TEC_def assms(1-3) TEC_loop_cong [OF ed] ..

lemma BendingAngle_cong:
  assumes "stationLoc e' = stationLoc e" "spacecraftLoc e' = spacecraftLoc e"
    and "earthRadius e' = earthRadius e" "waveLength e' = waveLength e"
    and ed: "ElectronDensity X e' = ElectronDensity X e"
  shows "BendingAngle X e' = BendingAngle X e"
  unfolding BendingAngle_def angle_correction_def assms(1-4) ed Bending_loop_cong [OF ed] ..

lemma igrz_range_check_fields [simp]:
  "ap_yyyymmddMin (igrz_range_check e) = ap_yyyymmddMin e"
  "ap_yyyymmddMax (igrz_range_check e) = ap_yyyymmddMax e"
  "igrz_yyyymmddMin (igrz_range_check e) = igrz_yyyymmddMin e"
  "igrz_yyyymmddMax (igrz_range_check e) = igrz_yyyymmddMax e"
  "isInitialized (igrz_range_check e) = isInitialized e"
  "waveLength (igrz_range_check e) = waveLength e"
  "stationLoc (igrz_range_check e) = stationLoc e"
  "spacecraftLoc (igrz_range_check e) = spacecraftLoc e"
  "earthRadius (igrz_range_check e) = earthRadius e"
  "yyyy (igrz_range_check e) = yyyy e"
  "mmdd (igrz_range_check e) = mmdd e"
  "hours (igrz_range_check e) = hours e"
  by (simp_all add: igrz_range_check_def Let_def)

lemma ElectronDensity_frame:
  "ElectronDensity X (igrz_range_check e) = ElectronDensity X e"
  by (rule ElectronDensity_cong) simp_all

lemma TEC_frame: "TEC X (igrz_range_check e) = TEC X e"
  by (rule TEC_cong) (simp_all add: ElectronDensity_frame)

lemma BendingAngle_frame: "BendingAngle X (igrz_range_check e) = BendingAngle X e"
  by (rule BendingAngle_cong) (simp_all add: ElectronDensity_frame)

lemma igrz_range_check_eq:
  "igrz_range_check e =
     (if outside_igrz e \<and> igrz_WarningCount e = 0
      then e\<lparr>shown := shown e @ [IgrzRangeWarning (epoch e) (igrz_yyyymmddMin e) (igrz_yyyymmddMax e)],
             igrz_WarningCount := igrz_WarningCount e + 1\<rparr>
      else e)"
  by (simp add: igrz_range_check_def outside_igrz_def mjdate_def Let_def)

lemma IRI2007_state:
  assumes "isInitialized e"
  shows "fst (CalculateIRI2007 X e) = igrz_range_check e"
  using assms
  by (simp add: CalculateIRI2007_def Let_def split: sum.split)

lemma IRI2007_outside_ap:
  assumes "isInitialized e" "outside_ap e"
  shows "snd (CalculateIRI2007 X e) = Inl EpochOutOfRange"
  using assms
  by (simp add: CalculateIRI2007_def outside_ap_def mjdate_def Let_def)

lemma IRI2007_inside_ap:
  assumes "isInitialized e" "\<not> outside_ap e"
  shows "snd (CalculateIRI2007 X e) =
           (case fst (TEC X e) of
              Inl err \<Rightarrow> Inl err
            | Inr tec \<Rightarrow>
               (case fst (BendingAngle X e) of
                  Inl err \<Rightarrow> Inl err
                | Inr dphi \<Rightarrow>
                    Inr [40.3 * tec / (SPEED_OF_LIGHT_VACUUM / waveLength e)\<^sup>2, dphi,
                         40.3 * tec / (SPEED_OF_LIGHT_VACUUM / waveLength e)\<^sup>2 / SPEED_OF_LIGHT_VACUUM]))"
proof -
  have ap: "\<not> (ap_yyyymmddMin e > yyyy e * 10000 + mmdd e \<or> yyyy e * 10000 + mmdd e \<ge> ap_yyyymmddMax e)"
    using assms(2) by (simp add: outside_ap_def mjdate_def)
  show ?thesis
    using assms(1) ap
    by (simp add: CalculateIRI2007_def Let_def TEC_frame BendingAngle_frame power2_eq_square
        split: sum.split)
qed

text \<open>
  Claim C1. When the discriminant \<open>b\<^sup>2 - 4ac\<close> of the shell quadratic is at most zero, or both
  of its roots are greater than 1, or both are less than 0, \<open>TEC\<close> and \<open>BendingAngle\<close> return
  exactly 0 and have called the density provider at no position.
\<close>

theorem TEC_BendingAngle_zero_outside_shell:
  assumes "discriminant e \<le> 0 \<or> (root1 e > 1 \<and> root2 e > 1) \<or> (root1 e < 0 \<and> root2 e < 0)"
  shows "TEC X e = (Inr 0, []) \<and> BendingAngle X e = (Inr 0, [])"
proof
  show "TEC X e = (Inr 0, [])"
    using assms
    unfolding TEC_def discriminant_def root1_def root2_def quad_a_def quad_b_def quad_c_def Let_def
    by auto
  show "BendingAngle X e = (Inr 0, [])"
    using assms
    unfolding BendingAngle_def discriminant_def root1_def root2_def quad_a_def quad_b_def
      quad_c_def Let_def
    by auto
qed

lemma example_discriminant: "discriminant example_engine \<le> 0"
  by (simp add: discriminant_def quad_a_def quad_b_def quad_c_def example_engine_def
      IONOSPHERE_MAX_ALTITUDE_def)

theorem TEC_BendingAngle_zero_outside_shell_witness:
  "discriminant example_engine \<le> 0
   \<and> TEC example_env example_engine = (Inr 0, [])
   \<and> BendingAngle example_env example_engine = (Inr 0, [])"
  using TEC_BendingAngle_zero_outside_shell [of example_engine example_env] example_discriminant
  by simp

text \<open>
  The roots are computed only when the discriminant is positive, and then the divisor
  \<open>2 * a\<close> is not zero.
\<close>

lemma dot_self_zero: "dot v v = 0 \<Longrightarrow> v = Rvector3 0 0 0"
proof (cases v)
  case (Rvector3 x y z)
  assume "dot v v = 0"
  with Rvector3 have "x * x + y * y + z * z = 0" by simp
  then have "x = 0 \<and> y = 0 \<and> z = 0"
    by (metis add_nonneg_eq_0_iff mult_eq_0_iff zero_le_square add_nonneg_nonneg)
  with Rvector3 show ?thesis by simp
qed

lemma roots_division_defined:
  assumes "0 < discriminant e"
  shows "quad_a e \<noteq> 0"
proof
  assume a: "quad_a e = 0"
  then have "vsub (spacecraftLoc e) (stationLoc e) = Rvector3 0 0 0"
    by (simp add: quad_a_def Let_def dot_self_zero)
  then have "quad_b e = 0"
    by (cases "stationLoc e") (simp add: quad_b_def Let_def)
  with a assms show False by (simp add: discriminant_def)
qed

text \<open>
  Claim C2. On an initialised engine with a positive wavelength and a date inside the ap
  window, when \<open>TEC\<close> returns \<open>tec\<close> and \<open>BendingAngle\<close> returns \<open>dphi\<close>, \<open>CalculateIRI2007\<close>
  returns the range correction \<open>40.3 * tec / frequency\<^sup>2\<close> with \<open>frequency = c / wavelength\<close>,
  then \<open>dphi\<close>, then the range correction divided by \<open>c\<close>, in this order.
\<close>

theorem CalculateIRI2007_triple:
  assumes "isInitialized e" and "0 < waveLength e" and "\<not> outside_ap e"
    and "fst (TEC X e) = Inr tec" and "fst (BendingAngle X e) = Inr dphi"
  shows "snd (CalculateIRI2007 X e) =
           Inr [40.3 * tec / (SPEED_OF_LIGHT_VACUUM / waveLength e)\<^sup>2,
                dphi,
                40.3 * tec / (SPEED_OF_LIGHT_VACUUM / waveLength e)\<^sup>2 / SPEED_OF_LIGHT_VACUUM]"
  using assms(4,5) by (simp add: IRI2007_inside_ap [OF assms(1,3)])

subsection \<open>A constant density along a radial path\<close>

lemma vsub_vadd_cancel: "vsub (vadd p dR) p = dR"
  by (cases p; cases dR) simp

lemma TEC_loop_constant_density:
  assumes "\<And>p. ElectronDensity X e p = Inr d"
  shows "fst (TEC_loop X e dR n p1 tec calls) =
           Inr (tec + real n * (d * (GetMagnitude dR * KM_TO_M)))"
proof (induction n arbitrary: p1 tec calls)
  case 0
  then show ?case by simp
next
  case (Suc n)
  show ?case
    by (simp add: assms Let_def vsub_vadd_cancel Suc.IH algebra_simps)
qed

lemma example_density: "ElectronDensity example_env e p = Inr 100000000000"
  by (simp add: ElectronDensity_def example_env_def)

lemma GetMagnitude_x_axis: "GetMagnitude (Rvector3 x 0 0) = \<bar>x\<bar>"
  by (simp add: GetMagnitude_def)

lemma example_incidence_x_axis:
  "x \<noteq> 0 \<Longrightarrow> y \<noteq> 0 \<Longrightarrow>
   \<exists>ang. incidence example_env (Rvector3 x 0 0) (Rvector3 y 0 0) = Inr ang"
  by (simp add: incidence_def example_env_def GetMagnitude_x_axis)

lemma Bending_loop_constant_density:
  assumes dens: "\<And>p. ElectronDensity X e p = Inr d"
    and inc: "\<And>y. y \<noteq> 0 \<Longrightarrow> \<exists>ang. incidence X (Rvector3 v 0 0) (Rvector3 y 0 0) = Inr ang"
    and "0 < h" and "real n * h < x"
  shows "\<exists>c. Bending_loop X e (Rvector3 v 0 0) (Rvector3 h 0 0) freq n
                (Rvector3 x 0 0) th (1 - 40.3 * d / (freq * freq)) 0 calls = (Inr 0, c)"
  using assms(4)
proof (induction n arbitrary: x th calls)
  case 0
  then show ?case by simp
next
  case (Suc n)
  have "0 \<le> real n * h" using assms(3) by simp
  with Suc.prems have x: "x - h \<noteq> 0" and nx: "real n * h < x - h"
    by (simp_all add: algebra_simps)
  from inc [OF x] obtain ang where
    ang: "incidence X (Rvector3 v 0 0) (Rvector3 (x - h) 0 0) = Inr ang" by blast
  from Suc.IH [OF nx, of ang "calls @ [Rvector3 (x - h) 0 0]"]
  show ?case
    by (simp add: dens Let_def ang)
qed

lemma example_crossing_sqrt: "sqrt 112305414400000000 = 335120000"
  by (rule real_sqrt_unique) simp_all

lemma example_crossing_TEC: "fst (TEC example_env example_crossing) = Inr 200000000000000000"
proof -
  have m: "GetMagnitude (Rvector3 10 0 0) = 10" by (simp add: GetMagnitude_x_axis)
  show ?thesis
    unfolding TEC_def Let_def
    by (simp add: example_crossing_def example_engine_def IONOSPHERE_MAX_ALTITUDE_def
        example_crossing_sqrt NUM_OF_INTERVALS_def
        TEC_loop_constant_density [OF example_density] m KM_TO_M_def)
qed

lemma example_crossing_BendingAngle: "fst (BendingAngle example_env example_crossing) = Inr 0"
proof -
  from example_incidence_x_axis [of 2000 8378] obtain ang where
    ang: "incidence example_env (Rvector3 2000 0 0) (Rvector3 8378 0 0) = Inr ang" by auto
  have "\<exists>c. Bending_loop example_env example_crossing (Rvector3 2000 0 0) (Rvector3 10 0 0)
               (SPEED_OF_LIGHT_VACUUM / waveLength example_crossing) 200 (Rvector3 8378 0 0) ang
               (1 - 40.3 * 100000000000
                      / (SPEED_OF_LIGHT_VACUUM / waveLength example_crossing
                         * (SPEED_OF_LIGHT_VACUUM / waveLength example_crossing)))
               0 [Rvector3 8378 0 0] = (Inr 0, c)"
    by (rule Bending_loop_constant_density [OF example_density])
       (simp_all add: example_incidence_x_axis)
  then have ac: "fst (angle_correction example_env example_crossing (Rvector3 6378 0 0)
                   (Rvector3 8378 0 0)) = Inr 0"
    by (auto simp add: angle_correction_def Let_def ang example_density NUM_OF_INTERVALS_def)
  have clip: "BendingAngle example_env example_crossing =
                angle_correction example_env example_crossing (Rvector3 6378 0 0)
                  (Rvector3 8378 0 0)"
    unfolding BendingAngle_def Let_def
    by (simp add: example_crossing_def example_engine_def IONOSPHERE_MAX_ALTITUDE_def
        example_crossing_sqrt)
  show ?thesis by (simp add: clip ac)
qed

theorem CalculateIRI2007_triple_witness:
  "isInitialized example_crossing \<and> 0 < waveLength example_crossing
   \<and> \<not> outside_ap example_crossing
   \<and> fst (TEC example_env example_crossing) = Inr 200000000000000000
   \<and> fst (BendingAngle example_env example_crossing) = Inr 0
   \<and> snd (CalculateIRI2007 example_env example_crossing) =
        Inr [40.3 * 200000000000000000 / (SPEED_OF_LIGHT_VACUUM / 0.13)\<^sup>2,
             0,
             40.3 * 200000000000000000 / (SPEED_OF_LIGHT_VACUUM / 0.13)\<^sup>2
               / SPEED_OF_LIGHT_VACUUM]"
proof -
  have i: "isInitialized example_crossing" and w: "0 < waveLength example_crossing"
    and wl: "waveLength example_crossing = 0.13"
    by (simp_all add: example_crossing_def example_engine_def)
  have a: "\<not> outside_ap example_crossing"
    by (simp add: outside_ap_def mjdate_def example_crossing_def example_engine_def)
  from CalculateIRI2007_triple [OF i w a example_crossing_TEC example_crossing_BendingAngle]
  have "snd (CalculateIRI2007 example_env example_crossing) =
        Inr [40.3 * 200000000000000000 / (SPEED_OF_LIGHT_VACUUM / 0.13)\<^sup>2,
             0,
             40.3 * 200000000000000000 / (SPEED_OF_LIGHT_VACUUM / 0.13)\<^sup>2
               / SPEED_OF_LIGHT_VACUUM]"
    by (simp only: wl)
  with i w a example_crossing_TEC example_crossing_BendingAngle show ?thesis by blast
qed

subsection \<open>Errors of the integration\<close>

lemma ElectronDensity_error: "ElectronDensity X e p = Inl err \<Longrightarrow> err = DataFilesNotFound"
  by (auto simp: ElectronDensity_def Let_def split: prod.splits if_splits)

lemma TEC_loop_error:
  "fst (TEC_loop X e dR n p1 tec calls) = Inl err \<Longrightarrow> err = DataFilesNotFound"
  by (induction n arbitrary: p1 tec calls)
     (auto simp: Let_def split: sum.splits dest: ElectronDensity_error)

lemma TEC_error: "fst (TEC X e) = Inl err \<Longrightarrow> err = DataFilesNotFound"
  unfolding TEC_def Let_def
  by (auto split: if_splits dest: TEC_loop_error)

lemma incidence_error: "incidence X v r = Inl err \<Longrightarrow> err = ZeroVector"
  by (auto simp: incidence_def split: option.splits)

lemma Bending_loop_error:
  "fst (Bending_loop X e rangeVec dR freq n r th ni dth calls) = Inl err \<Longrightarrow>
   err = DataFilesNotFound \<or> err = ZeroVector"
  by (induction n arbitrary: r th ni dth calls)
     (auto simp: Let_def split: sum.splits dest: ElectronDensity_error incidence_error)

lemma angle_correction_error:
  assumes "fst (angle_correction X e start endpt) = Inl err"
  shows "err = DataFilesNotFound \<or> err = ZeroVector"
proof -
  let ?rv = "vsub endpt start"
  let ?f = "SPEED_OF_LIGHT_VACUUM / waveLength e"
  show ?thesis
  proof (cases "incidence X ?rv endpt")
    case (Inl a)
    with assms show ?thesis
      by (auto simp: angle_correction_def Let_def dest: incidence_error)
  next
    case th: (Inr theta)
    show ?thesis
    proof (cases "ElectronDensity X e endpt")
      case (Inl a)
      with th assms show ?thesis
        by (auto simp: angle_correction_def Let_def dest: ElectronDensity_error)
    next
      case (Inr d)
      let ?loop = "Bending_loop X e ?rv (vdivs ?rv (real NUM_OF_INTERVALS)) ?f NUM_OF_INTERVALS
                     endpt theta (1 - 40.3 * d / (?f * ?f)) 0.0 [endpt]"
      from th Inr assms have "fst ?loop = Inl err"
        by (cases ?loop) (auto simp: angle_correction_def Let_def split: sum.splits)
      then show ?thesis by (rule Bending_loop_error)
    qed
  qed
qed

lemma BendingAngle_error:
  "fst (BendingAngle X e) = Inl err \<Longrightarrow> err = DataFilesNotFound \<or> err = ZeroVector"
  unfolding BendingAngle_def Let_def
  by (auto split: if_splits dest: angle_correction_error)

lemma IRI2007_not_range_error:
  assumes "isInitialized e" "\<not> outside_ap e"
  shows "snd (CalculateIRI2007 X e) \<noteq> Inl EpochOutOfRange"
proof
  assume h: "snd (CalculateIRI2007 X e) = Inl EpochOutOfRange"
  show False
  proof (cases "fst (TEC X e)")
    case (Inl err)
    then have "err = DataFilesNotFound" by (rule TEC_error)
    with Inl h show False by (simp add: IRI2007_inside_ap [OF assms])
  next
    case t: (Inr tec)
    show False
    proof (cases "fst (BendingAngle X e)")
      case (Inl err)
      then have "err = DataFilesNotFound \<or> err = ZeroVector" by (rule BendingAngle_error)
      with Inl t h show False by (auto simp add: IRI2007_inside_ap [OF assms])
    next
      case (Inr dphi)
      with t h show False by (simp add: IRI2007_inside_ap [OF assms])
    qed
  qed
qed

subsection \<open>The warning over a session\<close>

lemma IRI2007_shown:
  assumes "isInitialized e"
  shows "shown (fst (CalculateIRI2007 X e)) =
           shown e @ (if outside_igrz e \<and> igrz_WarningCount e = 0
                      then [IgrzRangeWarning (epoch e) (igrz_yyyymmddMin e) (igrz_yyyymmddMax e)]
                      else [])"
  by (simp add: IRI2007_state [OF assms] igrz_range_check_eq)

lemma request_engine_fields [simp]:
  "isInitialized (request_engine X e r) = isInitialized e"
  "igrz_yyyymmddMin (request_engine X e r) = igrz_yyyymmddMin e"
  "igrz_yyyymmddMax (request_engine X e r) = igrz_yyyymmddMax e"
  "igrz_WarningCount (request_engine X e r) = igrz_WarningCount e"
  "shown (request_engine X e r) = shown e"
  "mjdate (request_engine X e r) = request_date X r"
  by (simp_all add: request_engine_def SetTime_def SetWaveLength_def SetSpacecraftPosition_def
      SetStationPosition_def mjdate_def request_date_def split: prod.splits)

lemma serve_eq:
  "isInitialized e \<Longrightarrow> serve_IRI2007 X e r = igrz_range_check (request_engine X e r)"
  by (simp add: serve_IRI2007_def IRI2007_state)

lemma serve_fields:
  assumes "isInitialized e"
  shows "isInitialized (serve_IRI2007 X e r)"
    and "igrz_yyyymmddMin (serve_IRI2007 X e r) = igrz_yyyymmddMin e"
    and "igrz_yyyymmddMax (serve_IRI2007 X e r) = igrz_yyyymmddMax e"
  using assms by (simp_all add: serve_eq)

lemma serve_warned:
  assumes "isInitialized e" "igrz_WarningCount e \<noteq> 0"
  shows "igrz_WarningCount (serve_IRI2007 X e r) \<noteq> 0"
    and "igrz_warnings (serve_IRI2007 X e r) = igrz_warnings e"
  using assms by (simp_all add: serve_eq igrz_range_check_eq igrz_warnings_def)

lemma serve_fresh:
  assumes "isInitialized e" "igrz_WarningCount e = 0"
  shows "request_outside_igrz X e r \<Longrightarrow> igrz_WarningCount (serve_IRI2007 X e r) \<noteq> 0"
    and "request_outside_igrz X e r \<Longrightarrow> igrz_warnings (serve_IRI2007 X e r) = igrz_warnings e + 1"
    and "\<not> request_outside_igrz X e r \<Longrightarrow> igrz_WarningCount (serve_IRI2007 X e r) = 0"
    and "\<not> request_outside_igrz X e r \<Longrightarrow> igrz_warnings (serve_IRI2007 X e r) = igrz_warnings e"
  using assms
  by (simp_all add: serve_eq igrz_range_check_eq igrz_warnings_def outside_igrz_def
      request_outside_igrz_def)

lemma session_warned:
  "isInitialized e \<Longrightarrow> igrz_WarningCount e \<noteq> 0 \<Longrightarrow>
   igrz_warnings (session_IRI2007 X e rs) = igrz_warnings e"
proof (induction rs arbitrary: e)
  case Nil
  then show ?case by (simp add: session_IRI2007_def)
next
  case (Cons r rs)
  have "igrz_warnings (session_IRI2007 X (serve_IRI2007 X e r) rs)
          = igrz_warnings (serve_IRI2007 X e r)"
    using Cons.prems by (intro Cons.IH serve_fields serve_warned)
  then show ?case
    using Cons.prems by (simp add: session_IRI2007_def serve_warned)
qed

lemma request_outside_igrz_cong:
  "igrz_yyyymmddMin e' = igrz_yyyymmddMin e \<Longrightarrow> igrz_yyyymmddMax e' = igrz_yyyymmddMax e \<Longrightarrow>
   request_outside_igrz X e' r = request_outside_igrz X e r"
  by (simp add: request_outside_igrz_def)

lemma session_fresh:
  "isInitialized e \<Longrightarrow> igrz_WarningCount e = 0 \<Longrightarrow>
   igrz_warnings (session_IRI2007 X e rs) =
     igrz_warnings e + (if \<exists>r\<in>set rs. request_outside_igrz X e r then 1 else 0)"
proof (induction rs arbitrary: e)
  case Nil
  then show ?case by (simp add: session_IRI2007_def)
next
  case (Cons r rs)
  let ?e' = "serve_IRI2007 X e r"
  have init': "isInitialized ?e'" using Cons.prems by (simp add: serve_fields)
  have step: "session_IRI2007 X e (r # rs) = session_IRI2007 X ?e' rs"
    by (simp add: session_IRI2007_def)
  show ?case
  proof (cases "request_outside_igrz X e r")
    case True
    then have "igrz_WarningCount ?e' \<noteq> 0" "igrz_warnings ?e' = igrz_warnings e + 1"
      using Cons.prems by (simp_all add: serve_fresh)
    then show ?thesis
      using True init' by (simp add: step session_warned)
  next
    case False
    then have c: "igrz_WarningCount ?e' = 0" and w: "igrz_warnings ?e' = igrz_warnings e"
      using Cons.prems by (simp_all add: serve_fresh)
    have same: "request_outside_igrz X ?e' q = request_outside_igrz X e q" for q
      using Cons.prems by (intro request_outside_igrz_cong) (simp_all add: serve_fields)
    show ?thesis
      using False by (simp add: step Cons.IH [OF init' c] w same)
  qed
qed

text \<open>
  Claim C4. On an initialised engine, \<open>CalculateIRI2007\<close> fails with the out-of-range error
  exactly when the packed date is outside the ap window. A date outside the ig\_rz window
  and inside the ap window is not fatal: the result is the one computed from \<open>TEC\<close> and
  \<open>BendingAngle\<close>. The call shows the ig\_rz warning when the date is outside the ig\_rz
  window and the warning count is zero, and shows nothing otherwise; over any sequence of
  set-then-call requests served by an instance that starts with no warning shown, the
  warning is shown once if some request is outside the ig\_rz window and never otherwise.
\<close>

theorem CalculateIRI2007_range_errors:
  assumes "isInitialized e"
  shows "(snd (CalculateIRI2007 X e) = Inl EpochOutOfRange \<longleftrightarrow> outside_ap e)
       \<and> (outside_igrz e \<and> \<not> outside_ap e \<longrightarrow>
            snd (CalculateIRI2007 X e) =
              (case fst (TEC X e) of
                 Inl err \<Rightarrow> Inl err
               | Inr tec \<Rightarrow>
                  (case fst (BendingAngle X e) of
                     Inl err \<Rightarrow> Inl err
                   | Inr dphi \<Rightarrow>
                       Inr [40.3 * tec / (SPEED_OF_LIGHT_VACUUM / waveLength e)\<^sup>2, dphi,
                            40.3 * tec / (SPEED_OF_LIGHT_VACUUM / waveLength e)\<^sup>2
                              / SPEED_OF_LIGHT_VACUUM])))
       \<and> shown (fst (CalculateIRI2007 X e)) =
            shown e @ (if outside_igrz e \<and> igrz_WarningCount e = 0
                       then [IgrzRangeWarning (epoch e) (igrz_yyyymmddMin e) (igrz_yyyymmddMax e)]
                       else [])
       \<and> (igrz_WarningCount e = 0 \<and> igrz_warnings e = 0 \<longrightarrow>
            igrz_warnings (session_IRI2007 X e rs) =
              (if \<exists>r\<in>set rs. request_outside_igrz X e r then 1 else 0))"
proof (intro conjI impI)
  show "snd (CalculateIRI2007 X e) = Inl EpochOutOfRange \<longleftrightarrow> outside_ap e"
    using IRI2007_outside_ap [OF assms] IRI2007_not_range_error [OF assms] by blast
next
  assume "outside_igrz e \<and> \<not> outside_ap e"
  then show "snd (CalculateIRI2007 X e) =
              (case fst (TEC X e) of
                 Inl err \<Rightarrow> Inl err
               | Inr tec \<Rightarrow>
                  (case fst (BendingAngle X e) of
                     Inl err \<Rightarrow> Inl err
                   | Inr dphi \<Rightarrow>
                       Inr [40.3 * tec / (SPEED_OF_LIGHT_VACUUM / waveLength e)\<^sup>2, dphi,
                            40.3 * tec / (SPEED_OF_LIGHT_VACUUM / waveLength e)\<^sup>2
                              / SPEED_OF_LIGHT_VACUUM]))"
    by (simp add: IRI2007_inside_ap [OF assms])
next
  show "shown (fst (CalculateIRI2007 X e)) =
            shown e @ (if outside_igrz e \<and> igrz_WarningCount e = 0
                       then [IgrzRangeWarning (epoch e) (igrz_yyyymmddMin e) (igrz_yyyymmddMax e)]
                       else [])"
    by (rule IRI2007_shown [OF assms])
next
  assume "igrz_WarningCount e = 0 \<and> igrz_warnings e = 0"
  then show "igrz_warnings (session_IRI2007 X e rs) =
              (if \<exists>r\<in>set rs. request_outside_igrz X e r then 1 else 0)"
    using session_fresh [OF assms, of X rs] by simp
qed

text \<open>
  Claim C10. With the windows that initialisation accepts (minimum below maximum), a date
  equal to the minimum of the ap window does not raise the out-of-range error, and a date
  equal to its maximum raises it; a date equal to the minimum of the ig\_rz window leaves
  the engine as it was (no warning), and a date equal to its maximum shows the warning when
  none has been counted yet.
\<close>

theorem window_half_open:
  assumes "isInitialized e"
    and "ap_yyyymmddMin e < ap_yyyymmddMax e"
    and "igrz_yyyymmddMin e < igrz_yyyymmddMax e"
  shows "(mjdate e = ap_yyyymmddMin e \<longrightarrow> snd (CalculateIRI2007 X e) \<noteq> Inl EpochOutOfRange)
       \<and> (mjdate e = ap_yyyymmddMax e \<longrightarrow> snd (CalculateIRI2007 X e) = Inl EpochOutOfRange)
       \<and> (mjdate e = igrz_yyyymmddMin e \<longrightarrow> fst (CalculateIRI2007 X e) = e)
       \<and> (mjdate e = igrz_yyyymmddMax e \<and> igrz_WarningCount e = 0 \<longrightarrow>
            shown (fst (CalculateIRI2007 X e)) =
              shown e @ [IgrzRangeWarning (epoch e) (igrz_yyyymmddMin e) (igrz_yyyymmddMax e)]
            \<and> igrz_WarningCount (fst (CalculateIRI2007 X e)) = 1)"
proof (intro conjI impI)
  assume "mjdate e = ap_yyyymmddMin e"
  with assms(2) have "\<not> outside_ap e" by (simp add: outside_ap_def)
  then show "snd (CalculateIRI2007 X e) \<noteq> Inl EpochOutOfRange"
    by (rule IRI2007_not_range_error [OF assms(1)])
next
  assume "mjdate e = ap_yyyymmddMax e"
  then have "outside_ap e" by (simp add: outside_ap_def)
  then show "snd (CalculateIRI2007 X e) = Inl EpochOutOfRange"
    by (rule IRI2007_outside_ap [OF assms(1)])
next
  assume "mjdate e = igrz_yyyymmddMin e"
  with assms(3) have "\<not> outside_igrz e" by (simp add: outside_igrz_def)
  then show "fst (CalculateIRI2007 X e) = e"
    by (simp add: IRI2007_state [OF assms(1)] igrz_range_check_eq)
next
  assume h: "mjdate e = igrz_yyyymmddMax e \<and> igrz_WarningCount e = 0"
  then have o: "outside_igrz e" by (simp add: outside_igrz_def)
  with h show "shown (fst (CalculateIRI2007 X e)) =
      shown e @ [IgrzRangeWarning (epoch e) (igrz_yyyymmddMin e) (igrz_yyyymmddMax e)]"
    by (simp add: IRI2007_state [OF assms(1)] igrz_range_check_eq)
  from o h show "igrz_WarningCount (fst (CalculateIRI2007 X e)) = 1"
    by (simp add: IRI2007_state [OF assms(1)] igrz_range_check_eq)
qed

theorem CalculateIRI2007_range_errors_witness:
  "isInitialized (example_engine\<lparr>igrz_yyyymmddMax := 20191231\<rparr>)
   \<and> outside_igrz (example_engine\<lparr>igrz_yyyymmddMax := 20191231\<rparr>)
   \<and> \<not> outside_ap (example_engine\<lparr>igrz_yyyymmddMax := 20191231\<rparr>)
   \<and> snd (CalculateIRI2007 example_env (example_engine\<lparr>igrz_yyyymmddMax := 20191231\<rparr>))
        = Inr [0, 0, 0]
   \<and> shown (fst (CalculateIRI2007 example_env (example_engine\<lparr>igrz_yyyymmddMax := 20191231\<rparr>)))
        = [IgrzRangeWarning 29000 19580101 20191231]
   \<and> igrz_warnings (session_IRI2007 example_env
         (example_engine\<lparr>igrz_yyyymmddMax := 20191231\<rparr>) example_requests) = 1"
proof -
  let ?e = "example_engine\<lparr>igrz_yyyymmddMax := 20191231\<rparr>"
  have i: "isInitialized ?e" by (simp add: example_engine_def)
  have o: "outside_igrz ?e" by (simp add: outside_igrz_def mjdate_def example_engine_def)
  have a: "\<not> outside_ap ?e" by (simp add: outside_ap_def mjdate_def example_engine_def)
  have t: "TEC example_env ?e = (Inr 0, [])"
    unfolding TEC_def Let_def by (simp add: example_engine_def IONOSPHERE_MAX_ALTITUDE_def)
  have b: "BendingAngle example_env ?e = (Inr 0, [])"
    unfolding BendingAngle_def Let_def by (simp add: example_engine_def IONOSPHERE_MAX_ALTITUDE_def)
  have f: "igrz_WarningCount ?e = 0 \<and> igrz_warnings ?e = 0"
    by (simp add: igrz_warnings_def example_engine_def)
  have r: "\<exists>r\<in>set example_requests. request_outside_igrz example_env ?e r"
    by (simp add: example_requests_def request_outside_igrz_def request_date_def
        example_env_def example_engine_def)
  have s: "shown ?e = []" "epoch ?e = 29000" "igrz_yyyymmddMin ?e = 19580101"
    "igrz_yyyymmddMax ?e = 20191231"
    by (simp_all add: example_engine_def)
  show ?thesis
    using CalculateIRI2007_range_errors [OF i, of example_env example_requests] i o a t b f r s
    by simp
qed

theorem window_half_open_witness:
  "isInitialized example_engine
   \<and> ap_yyyymmddMin example_engine < ap_yyyymmddMax example_engine
   \<and> igrz_yyyymmddMin example_engine < igrz_yyyymmddMax example_engine
   \<and> snd (CalculateIRI2007 example_env (example_engine\<lparr>yyyy := 1958, mmdd := 101\<rparr>))
        \<noteq> Inl EpochOutOfRange
   \<and> fst (CalculateIRI2007 example_env (example_engine\<lparr>yyyy := 1958, mmdd := 101\<rparr>))
        = example_engine\<lparr>yyyy := 1958, mmdd := 101\<rparr>
   \<and> snd (CalculateIRI2007 example_env (example_engine\<lparr>yyyy := 2025, mmdd := 630\<rparr>))
        = Inl EpochOutOfRange
   \<and> shown (fst (CalculateIRI2007 example_env (example_engine\<lparr>yyyy := 2026, mmdd := 1231\<rparr>)))
        = [IgrzRangeWarning 29000 19580101 20261231]"
proof -
  let ?lo = "example_engine\<lparr>yyyy := 1958, mmdd := 101\<rparr>"
  let ?ap = "example_engine\<lparr>yyyy := 2025, mmdd := 630\<rparr>"
  let ?ig = "example_engine\<lparr>yyyy := 2026, mmdd := 1231\<rparr>"
  have lo: "isInitialized ?lo" "ap_yyyymmddMin ?lo < ap_yyyymmddMax ?lo"
    "igrz_yyyymmddMin ?lo < igrz_yyyymmddMax ?lo"
    "mjdate ?lo = ap_yyyymmddMin ?lo" "mjdate ?lo = igrz_yyyymmddMin ?lo"
    by (simp_all add: example_engine_def mjdate_def)
  have ap: "isInitialized ?ap" "ap_yyyymmddMin ?ap < ap_yyyymmddMax ?ap"
    "igrz_yyyymmddMin ?ap < igrz_yyyymmddMax ?ap" "mjdate ?ap = ap_yyyymmddMax ?ap"
    by (simp_all add: example_engine_def mjdate_def)
  have ig: "isInitialized ?ig" "ap_yyyymmddMin ?ig < ap_yyyymmddMax ?ig"
    "igrz_yyyymmddMin ?ig < igrz_yyyymmddMax ?ig"
    "mjdate ?ig = igrz_yyyymmddMax ?ig \<and> igrz_WarningCount ?ig = 0"
    "shown ?ig = []" "epoch ?ig = 29000" "igrz_yyyymmddMin ?ig = 19580101"
    "igrz_yyyymmddMax ?ig = 20261231"
    by (simp_all add: example_engine_def mjdate_def)
  have ex: "isInitialized example_engine"
    "ap_yyyymmddMin example_engine < ap_yyyymmddMax example_engine"
    "igrz_yyyymmddMin example_engine < igrz_yyyymmddMax example_engine"
    by (simp_all add: example_engine_def)
  show ?thesis
    using window_half_open [OF lo(1-3), of example_env]
      window_half_open [OF ap(1-3), of example_env]
      window_half_open [OF ig(1-3), of example_env] lo ap ig ex
    by simp
qed

subsection \<open>The windows that initialisation accepts\<close>

lemma GetAPTimeRange_ok:
  "GetAPTimeRange X e = (e1, Inr u) \<Longrightarrow>
   ap_yyyymmddMin e1 < ap_yyyymmddMax e1 \<and> isInitialized e1 = isInitialized e"
  by (auto simp: GetAPTimeRange_def Let_def split: prod.splits if_splits)

lemma GetIGRZTimeRange_ok:
  "GetIGRZTimeRange X e1 = (e2, Inr u) \<Longrightarrow>
   igrz_yyyymmddMin e2 < igrz_yyyymmddMax e2 \<and> ap_yyyymmddMin e2 = ap_yyyymmddMin e1
   \<and> ap_yyyymmddMax e2 = ap_yyyymmddMax e1"
  unfolding GetIGRZTimeRange_def Let_def
  by (auto split: prod.splits if_splits)

lemma Initialize_ranges:
  assumes "\<not> isInitialized e" and "Initialize X e = (e', Inr b)" and "isInitialized e'"
  shows "ap_yyyymmddMin e' < ap_yyyymmddMax e' \<and> igrz_yyyymmddMin e' < igrz_yyyymmddMax e'"
proof (cases "MediaCorrection_Initialize X")
  case False
  with assms show ?thesis by (simp add: Initialize_def)
next
  case True
  obtain e1 r1 where g1: "GetAPTimeRange X e = (e1, r1)" by (cases "GetAPTimeRange X e")
  obtain e2 r2 where g2: "GetIGRZTimeRange X e1 = (e2, r2)" by (cases "GetIGRZTimeRange X e1")
  from assms(1,2) True g1 obtain u1 where r1: "r1 = Inr u1"
    by (cases r1) (auto simp: Initialize_def)
  from assms(1,2) True g1 g2 r1 obtain u2 where r2: "r2 = Inr u2"
    by (cases r2) (auto simp: Initialize_def)
  from assms(1,2) True g1 g2 r1 r2 have e': "e' = e2\<lparr>isInitialized := True\<rparr>"
    by (auto simp: Initialize_def Let_def split: if_splits)
  from GetAPTimeRange_ok [OF g1 [unfolded r1]] GetIGRZTimeRange_ok [OF g2 [unfolded r2]]
  show ?thesis by (simp add: e')
qed

section \<open>The empirical model: proofs\<close>

subsection \<open>Time tokens\<close>

lemma GetTRK223Fields_year:
  assumes "12 \<le> length line"
  shows "TRK223Year X line =
           Inr (let year = read_Integer X (take 2 line) 0
                in if year \<ge> 69 \<and> year < 1000 then year + 1900
                   else if year < 69 then year + 2000 else year)"
  using assms
  by (simp add: TRK223Year_def GetTRK223Fields_def substr_def substr_from_def Let_def)

lemma GetTRK223Time_defined:
  assumes "12 \<le> length line"
  shows "\<exists>t. GetTRK223Time X line = Inr t"
  using assms
  by (simp add: GetTRK223Time_def GetTRK223Fields_def substr_def substr_from_def Let_def)

text \<open>
  Claim C6, as amended. The record-table parser maps a two-digit year \<open>y\<close> to \<open>1900 + y\<close> when
  \<open>y \<ge> 69\<close> and to \<open>2000 + y\<close> when \<open>y < 69\<close>, so "68" is 2068 and "69" is 1969; the ap.dat
  parser maps \<open>y\<close> to \<open>1900 + y\<close> when \<open>y \<ge> 58\<close> and to \<open>2000 + y\<close> otherwise, so "69" is 1969.
\<close>

theorem two_digit_year_pivots:
  "(12 \<le> length line \<and> ToInteger X (take 2 line) = Some y \<and> 0 \<le> y \<and> y < 100 \<longrightarrow>
      TRK223Year X line = Inr (if 69 \<le> y then 1900 + y else 2000 + y))
   \<and> (ap_first X = (y1, m1, d1) \<longrightarrow>
        ap_yyyymmddMin (fst (GetAPTimeRange X e)) =
          (if 58 \<le> y1 then 1900 + y1 else 2000 + y1) * 10000 + m1 * 100 + d1)
   \<and> (ap_last X = (y2, m2, d2) \<longrightarrow>
        ap_yyyymmddMax (fst (GetAPTimeRange X e)) =
          (if 58 \<le> y2 then 1900 + y2 else 2000 + y2) * 10000 + m2 * 100 + d2)"
proof (intro conjI impI)
  assume "12 \<le> length line \<and> ToInteger X (take 2 line) = Some y \<and> 0 \<le> y \<and> y < 100"
  then show "TRK223Year X line = Inr (if 69 \<le> y then 1900 + y else 2000 + y)"
    by (simp add: GetTRK223Fields_year read_Integer_def)
next
  assume "ap_first X = (y1, m1, d1)"
  then show "ap_yyyymmddMin (fst (GetAPTimeRange X e)) =
          (if 58 \<le> y1 then 1900 + y1 else 2000 + y1) * 10000 + m1 * 100 + d1"
    by (simp add: GetAPTimeRange_def Let_def split: prod.split)
next
  assume "ap_last X = (y2, m2, d2)"
  then show "ap_yyyymmddMax (fst (GetAPTimeRange X e)) =
          (if 58 \<le> y2 then 1900 + y2 else 2000 + y2) * 10000 + m2 * 100 + d2"
    by (simp add: GetAPTimeRange_def Let_def split: prod.split)
qed

lemma example_ToInteger_68: "example_ToInteger ''68'' = Some 68"
  by (simp add: example_ToInteger_def is_digit_def)

lemma example_ToInteger_69: "example_ToInteger ''69'' = Some 69"
  by (simp add: example_ToInteger_def is_digit_def)

text \<open>
  The claim as stated has "68" read as 1968 and "69" as 2069 by the record-table parser;
  the parser gives neither.
\<close>

theorem record_table_year_counterexample:
  "TRK223Year example_env ''68 01 01 00 00'' \<noteq> Inr 1968
   \<and> TRK223Year example_env ''69 01 01 00 00'' \<noteq> Inr 2069"
  by (simp add: GetTRK223Fields_year read_Integer_def example_env_def example_ToInteger_68
      example_ToInteger_69)

theorem two_digit_year_pivots_witness:
  "TRK223Year (example_env\<lparr>ap_first := (69, 1, 1)\<rparr>) ''68 01 01 00 00'' = Inr 2068
   \<and> TRK223Year (example_env\<lparr>ap_first := (69, 1, 1)\<rparr>) ''69 01 01 00 00'' = Inr 1969
   \<and> ap_yyyymmddMin (fst (GetAPTimeRange (example_env\<lparr>ap_first := (69, 1, 1)\<rparr>) example_engine))
        = 19690101
   \<and> ap_yyyymmddMax (fst (GetAPTimeRange (example_env\<lparr>ap_first := (69, 1, 1)\<rparr>) example_engine))
        = 20250630"
proof -
  let ?X = "example_env\<lparr>ap_first := (69, 1, 1)\<rparr>"
  have a: "12 \<le> length ''68 01 01 00 00'' \<and> ToInteger ?X (take 2 ''68 01 01 00 00'') = Some 68
           \<and> (0::int) \<le> 68 \<and> (68::int) < 100"
    by (simp add: example_env_def example_ToInteger_68)
  have b: "12 \<le> length ''69 01 01 00 00'' \<and> ToInteger ?X (take 2 ''69 01 01 00 00'') = Some 69
           \<and> (0::int) \<le> 69 \<and> (69::int) < 100"
    by (simp add: example_env_def example_ToInteger_69)
  have c: "ap_first ?X = (69, 1, 1)" "ap_last ?X = (25, 6, 30)"
    by (simp_all add: example_env_def)
  from two_digit_year_pivots [of "''68 01 01 00 00''" ?X 68 69 1 1 example_engine 25 6 30] a c
  have r1: "TRK223Year ?X ''68 01 01 00 00'' = Inr 2068"
    and r3: "ap_yyyymmddMin (fst (GetAPTimeRange ?X example_engine)) = 19690101"
    and r4: "ap_yyyymmddMax (fst (GetAPTimeRange ?X example_engine)) = 20250630"
    by simp_all
  from two_digit_year_pivots [of "''69 01 01 00 00''" ?X 69 69 1 1 example_engine 25 6 30] b
  have r2: "TRK223Year ?X ''69 01 01 00 00'' = Inr 1969"
    by simp
  from r1 r2 r3 r4 show ?thesis by simp
qed

subsection \<open>The TRIG evaluator\<close>

lemma TRIG_loop_pairs:
  "i \<le> length coefs \<Longrightarrow> even (length coefs - i) \<Longrightarrow>
   TRIG_loop coefs phase i (int k) drho = Inr (drho + fourier_pairs (drop i coefs) phase k)"
proof (induction "length coefs - i" arbitrary: i k drho rule: less_induct)
  case less
  show ?case
  proof (cases "i < length coefs")
    case False
    with less.prems show ?thesis by (subst TRIG_loop.simps) simp
  next
    case True
    have "length coefs - i \<noteq> 1"
    proof
      assume "length coefs - i = 1"
      with less.prems(2) have "even (1::nat)" by (simp only:)
      then show False by simp
    qed
    with True have i1: "i + 1 < length coefs" by linarith
    have d: "drop i coefs = coefs ! i # coefs ! (i + 1) # drop (i + 2) coefs"
      using True i1 by (simp add: Cons_nth_drop_Suc)
    have ev: "even (length coefs - (i + 2))" using less.prems i1 by simp
    have step: "TRIG_loop coefs phase i (int k) drho =
                TRIG_loop coefs phase (i + 2) (int k + 1)
                  (drho + coefs ! i * cos (phase * real_of_int (int k))
                        + coefs ! (i + 1) * sin (phase * real_of_int (int k)))"
      using True i1 by (subst TRIG_loop.simps) simp
    have k1: "int k + 1 = int (Suc k)" by simp
    have IH: "TRIG_loop coefs phase (i + 2) (int (Suc k)) D
                = Inr (D + fourier_pairs (drop (i + 2) coefs) phase (Suc k))" for D
      using i1 ev by (intro less.hyps) auto
    show ?thesis
      unfolding step k1 IH d by simp
  qed
qed

lemma TRIG_loop_odd:
  "i \<le> length coefs \<Longrightarrow> odd (length coefs - i) \<Longrightarrow>
   TRIG_loop coefs phase i count drho = Inl (ReadPastEnd (length coefs) (length coefs))"
proof (induction "length coefs - i" arbitrary: i count drho rule: less_induct)
  case less
  from less.prems have lt: "i < length coefs" by (cases "i = length coefs") auto
  show ?case
  proof (cases "i + 1 < length coefs")
    case False
    with lt have "i + 1 = length coefs" by simp
    with lt show ?thesis by (subst TRIG_loop.simps) simp
  next
    case True
    have "odd (length coefs - (i + 2))" using less.prems True by simp
    then have "TRIG_loop coefs phase (i + 2) (count + 1)
            (drho + coefs ! i * cos (phase * real_of_int count)
                  + coefs ! (i + 1) * sin (phase * real_of_int count))
          = Inl (ReadPastEnd (length coefs) (length coefs))"
      using True by (intro less.hyps) auto
    then show ?thesis
      using True lt by (subst TRIG_loop.simps) simp
  qed
qed

lemma TRIG_model_eq:
  assumes "2 \<le> length coefs" "even (length coefs)"
  shows "TRK223Model ''TRIG'' coefs epochStart epochEnd t =
           Inr (coefs ! 1 + fourier_pairs (drop 2 coefs) (TRIG_phase coefs epochStart t) 1)"
proof -
  have ph: "TWO_PI * (t * 86400 - epochStart * 86400) / coefs ! 0 = TRIG_phase coefs epochStart t"
    by (simp add: TWO_PI_def TRIG_phase_def algebra_simps)
  have "TRIG_loop coefs (TRIG_phase coefs epochStart t) 2 (int 1) (coefs ! 1) =
          Inr (coefs ! 1 + fourier_pairs (drop 2 coefs) (TRIG_phase coefs epochStart t) 1)"
    using assms by (intro TRIG_loop_pairs) auto
  moreover have "0 < length coefs" "1 < length coefs" using assms(1) by linarith+
  ultimately show ?thesis
    by (simp add: TRK223Model_def Let_def ph)
qed

text \<open>
  Claim C7, as amended. For a TRIG record with an even number of coefficients, at least two,
  the correction before rescaling is the second coefficient plus the sum, over the harmonic
  indices 1, 2, 3, ..., of the cosine and sine terms whose amplitudes are the successive
  pairs of coefficients from the third on, at the phase
  \<open>2 * pi * (t - start) * 86400 / coefs[0]\<close>.
\<close>

theorem TRIG_fourier_series:
  assumes "2 \<le> length coefs" and "even (length coefs)" and "coefs ! 0 \<noteq> 0"
  shows "TRK223Model ''TRIG'' coefs epochStart epochEnd t =
           Inr (coefs ! 1
                + fourier_pairs (drop 2 coefs) (2 * pi * (t - epochStart) * 86400 / coefs ! 0) 1)"
  using TRIG_model_eq [OF assms(1,2)] by (simp add: TRIG_phase_def)

theorem TRIG_fourier_series_witness:
  "2 \<le> length [86400, 1, 2, 3 :: real] \<and> even (length [86400, 1, 2, 3 :: real])
   \<and> [86400, 1, 2, 3 :: real] ! 0 \<noteq> 0
   \<and> TRK223Model ''TRIG'' [86400, 1, 2, 3] 0 1 (1 / 4) = Inr 4"
proof -
  have h: "2 \<le> length [86400, 1, 2, 3 :: real]" "even (length [86400, 1, 2, 3 :: real])"
    "[86400, 1, 2, 3 :: real] ! 0 \<noteq> 0"
    by simp_all
  have "2 * pi * (1 / 4 - 0) * 86400 / 86400 = pi / 2" by simp
  then show ?thesis
    using TRIG_fourier_series [OF h, of 0 1 "1 / 4"] by simp
qed

text \<open>
  The claim as stated pairs the coefficients right after the first one; on the coefficients
  \<open>[86400, 0, 7, 0]\<close> at the window start the code returns 7 and the claimed series 0.
\<close>

theorem TRIG_series_claimed_counterexample:
  "TRK223Model ''TRIG'' [86400, 0, 7, 0] 0 1 0
     \<noteq> Inr (TRIG_series_claimed [86400, 0, 7, 0] 0 0)"
proof -
  have "TRK223Model ''TRIG'' [86400, 0, 7, 0] 0 1 0 = Inr 7"
    by (simp add: TRIG_model_eq TRIG_phase_def)
  moreover have "TRIG_series_claimed [86400, 0, 7, 0] 0 0 = 0"
    by (simp add: TRIG_series_claimed_def TRIG_phase_def)
  ultimately show ?thesis by simp
qed

text \<open>
  The inputs on which the evaluator reads past the end of the coefficients: a CONST record
  without coefficients, and a TRIG record with fewer than two or an odd number of them.
\<close>

lemma TRK223Model_reads_past_end_iff:
  "(\<exists>i n. TRK223Model mType coefs s e t = Inl (ReadPastEnd i n)) \<longleftrightarrow>
     (mType = ''CONST'' \<and> coefs = [])
     \<or> (mType = ''TRIG'' \<and> (length coefs < 2 \<or> odd (length coefs)))"
proof (cases "mType = ''TRIG''")
  case False
  then show ?thesis by (auto simp: TRK223Model_def Let_def)
next
  case True
  show ?thesis
  proof (cases "2 \<le> length coefs \<and> even (length coefs)")
    case True
    with TRIG_model_eq [of coefs s e t] \<open>mType = ''TRIG''\<close> show ?thesis by auto
  next
    case False
    show ?thesis
    proof (cases "length coefs < 2")
      case True
      with \<open>mType = ''TRIG''\<close> show ?thesis
        by (auto simp: TRK223Model_def Let_def)
    next
      case f: False
      with False have o: "odd (length coefs)" by auto
      from f o have "odd (length coefs - 2)" by simp
      with f have "TRIG_loop coefs phase 2 1 (coefs ! 1)
                     = Inl (ReadPastEnd (length coefs) (length coefs))" for phase
        by (intro TRIG_loop_odd) auto
      with f o \<open>mType = ''TRIG''\<close> show ?thesis
        by (auto simp: TRK223Model_def Let_def)
    qed
  qed
qed

lemma TRK223Model_reads_past_end:
  "TRK223Model ''CONST'' [] 28849.5 29214.5 29000 = Inl (ReadPastEnd 0 0)
   \<and> TRK223Model ''TRIG'' [86400, 1, 2] 28849.5 29214.5 29000 = Inl (ReadPastEnd 3 3)
   \<and> TRK223Model ''TRIG'' [86400] 28849.5 29214.5 29000 = Inl (ReadPastEnd 1 1)"
proof -
  have "TRIG_loop [86400, 1, 2] phase 2 1 1 = Inl (ReadPastEnd 3 3)" for phase
    using TRIG_loop_odd [of 2 "[86400, 1, 2]" phase 1 1] by simp
  then show ?thesis
    by (simp add: TRK223Model_def Let_def)
qed

subsection \<open>The station identifier\<close>

lemma TRK223_state:
  "fst (CalculateTRK223 X e) = e\<lparr>groundStationId := station_key e\<rparr>"
  by (simp add: CalculateTRK223_def station_key_def Let_def split: prod.split sum.split)

lemma expand_abbreviation_length:
  "length gid \<le> length (fst (expand_abbreviation gid))"
  by (simp add: expand_abbreviation_def)

lemma DSN_station_id_length: "length g + 5 \<le> length (DSN_station_id g)"
  by (simp add: DSN_station_id_def)

lemma station_key_longer: "length (groundStationId e) < length (station_key e)"
  using expand_abbreviation_length [of "groundStationId e"]
    DSN_station_id_length [of "fst (expand_abbreviation (groundStationId e))"]
  by (simp add: station_key_def)

lemma station_key_shape:
  "take 4 (station_key e) = ''DSN('' \<and> last (station_key e) = CHR '')''"
  by (simp add: station_key_def DSN_station_id_def)

text \<open>
  Claim C9. Every call of \<open>CalculateTRK223\<close>, whether it returns or throws, leaves the engine
  with \<open>groundStationId\<close> replaced by the \<^verbatim>\<open>DSN(...)\<close>-wrapped identifier built after the
  abbreviations are expanded, and changes nothing else; the new identifier is longer than
  the old one, hence different, and a second call wraps it again, so it works with a station
  key different from the first call's.
\<close>

theorem CalculateTRK223_overwrites_groundStationId:
  "fst (CalculateTRK223 X e) = e\<lparr>groundStationId := station_key e\<rparr>
   \<and> take 4 (station_key e) = ''DSN(''
   \<and> last (station_key e) = CHR '')''
   \<and> length (groundStationId e) < length (groundStationId (fst (CalculateTRK223 X e)))
   \<and> groundStationId (fst (CalculateTRK223 X e)) \<noteq> groundStationId e
   \<and> groundStationId (fst (CalculateTRK223 X (fst (CalculateTRK223 X e))))
        \<noteq> groundStationId (fst (CalculateTRK223 X e))"
proof -
  let ?e1 = "fst (CalculateTRK223 X e)"
  have g1: "groundStationId ?e1 = station_key e" by (simp add: TRK223_state)
  have l1: "length (groundStationId e) < length (groundStationId ?e1)"
    by (simp add: g1 station_key_longer)
  have l2: "length (groundStationId ?e1) < length (groundStationId (fst (CalculateTRK223 X ?e1)))"
    using station_key_longer [of ?e1] by (simp add: TRK223_state [of X ?e1])
  from l1 have n1: "groundStationId ?e1 \<noteq> groundStationId e" by auto
  from l2 have n2: "groundStationId (fst (CalculateTRK223 X ?e1)) \<noteq> groundStationId ?e1" by auto
  show ?thesis
    using TRK223_state [of X e] station_key_shape [of e] l1 n1 n2 by simp
qed

subsection \<open>The sample table\<close>

lemma example_ToInteger_values:
  "example_ToInteger ''20'' = Some 20" "example_ToInteger ''01'' = Some 1"
  "example_ToInteger ''12'' = Some 12" "example_ToInteger ''31'' = Some 31"
  "example_ToInteger ''00'' = Some 0" "example_ToInteger ''26'' = Some 26"
  by (simp_all add: example_ToInteger_def is_digit_def)

lemma example_times:
  "GetTRK223Time example_env ''20 01 01 00 00'' = Inr 28849.5"
  "GetTRK223Time example_env ''20 12 31 00 00'' = Inr 29214.5"
  by (simp_all add: GetTRK223Time_def GetTRK223Fields_def substr_def substr_from_def Let_def
      read_Integer_def example_env_def example_ToInteger_values)

theorem CalculateTRK223_overwrites_groundStationId_witness:
  "groundStationId example_engine = ''26''
   \<and> groundStationId (fst (CalculateTRK223 example_env example_engine)) = ''DSN(026)''
   \<and> groundStationId (fst (CalculateTRK223 example_env
         (fst (CalculateTRK223 example_env example_engine)))) = ''DSN(DSN(026))''"
proof -
  let ?e1 = "fst (CalculateTRK223 example_env example_engine)"
  have g0: "groundStationId example_engine = ''26''" by (simp add: example_engine_def)
  have k0: "station_key example_engine = ''DSN(026)''"
    by (simp add: station_key_def DSN_station_id_def expand_abbreviation_def g0)
  from CalculateTRK223_overwrites_groundStationId [of example_env example_engine]
  have e1: "?e1 = example_engine\<lparr>groundStationId := ''DSN(026)''\<rparr>"
    by (simp add: k0)
  have k1: "station_key ?e1 = ''DSN(DSN(026))''"
    by (simp add: e1 station_key_def DSN_station_id_def expand_abbreviation_def)
  from CalculateTRK223_overwrites_groundStationId [of example_env ?e1]
  have "groundStationId (fst (CalculateTRK223 example_env ?e1)) = ''DSN(DSN(026))''"
    by (simp add: k1)
  with g0 e1 show ?thesis by simp
qed

text \<open>
  Claim C8 fails on the code: on a TRIG record with three coefficients \<open>TRK223Solver\<close> reads
  \<^verbatim>\<open>coefs[3]\<close>, and on a CONST record with no coefficient it reads \<^verbatim>\<open>coefs[0]\<close>, both past the
  end of the vector.
\<close>

theorem TRK223Solver_reads_past_end:
  "TRK223Solver example_env example_engine
      (example_row\<lparr>modelType := ''TRIG'', coefCsv := ''86400,1,2''\<rparr>) 29000
     = Inl (ReadPastEnd 3 3)
   \<and> TRK223Solver example_env example_engine (example_row\<lparr>coefCsv := []\<rparr>) 29000
     = Inl (ReadPastEnd 0 0)"
proof -
  have l: "TRIG_loop [86400, 1, 2] phase 2 1 1 = Inl (ReadPastEnd 3 3)" for phase
    using TRIG_loop_odd [of 2 "[86400, 1, 2]" phase 1 1] by simp
  have c: "ToRealArray example_env ''86400,1,2'' = [86400, 1, 2]"
    "ToRealArray example_env [] = []"
    by (simp_all add: example_env_def)
  show ?thesis
    by (simp add: TRK223Solver_def example_row_def example_times c TRK223Model_def Let_def l)
qed

subsection \<open>The table scan\<close>

lemma brackets_in_window:
  assumes "well_formed_times row"
  shows "brackets X row ep = Inr (in_window X ep row)"
proof -
  from assms obtain ts te where
    t: "GetTRK223Time X (validStart row) = Inr ts" "GetTRK223Time X (validEnd row) = Inr te"
    using GetTRK223Time_defined [of "validStart row" X] GetTRK223Time_defined [of "validEnd row" X]
    by (auto simp: well_formed_times_def)
  show ?thesis
    by (auto simp add: brackets_def in_window_def validity_window_def t)
qed

lemma scan_row_unread:
  "\<not> scan_reads sc cplx gid row \<Longrightarrow>
   scan_row X ep sc cplx gid row i (a, b) = Inr (a, b)
   \<and> \<not> row_matches_complex X ep sc cplx row \<and> \<not> row_matches_station X ep sc cplx gid row"
  by (auto simp add: scan_row_def scan_reads_def row_matches_complex_def row_matches_station_def)

lemma scan_row_read:
  assumes "well_formed_times row"
  shows "scan_row X ep sc cplx gid row i (a, b) =
           Inr (if row_matches_complex X ep sc cplx row then i else a,
                if row_matches_station X ep sc cplx gid row then i else b)"
  by (simp add: scan_row_def row_matches_complex_def row_matches_station_def
      brackets_in_window [OF assms])

lemma scan_row_eq:
  assumes "scan_reads sc cplx gid row \<longrightarrow> well_formed_times row"
  shows "scan_row X ep sc cplx gid row i (a, b) =
           Inr (if row_matches_complex X ep sc cplx row then i else a,
                if row_matches_station X ep sc cplx gid row then i else b)"
proof (cases "scan_reads sc cplx gid row")
  case True
  with assms show ?thesis by (simp add: scan_row_read)
next
  case False
  then show ?thesis using scan_row_unread [OF False, of X ep i a b] by simp
qed

lemma scan_rows_eq:
  "\<forall>row\<in>set rows. scan_reads sc cplx gid row \<longrightarrow> well_formed_times row \<Longrightarrow>
   scan_rows X ep sc cplx gid rows i (a, b) =
     Inr (last_match (row_matches_complex X ep sc cplx) rows i a,
          last_match (row_matches_station X ep sc cplx gid) rows i b)"
  by (induction rows arbitrary: i a b) (simp_all add: scan_row_eq)

lemma last_match_none: "\<forall>row\<in>set rows. \<not> P row \<Longrightarrow> last_match P rows i found = found"
  by (induction rows arbitrary: i) simp_all

lemma last_match_last:
  "j < length rows \<Longrightarrow> P (rows ! j) \<Longrightarrow> \<forall>k<length rows. j < k \<longrightarrow> \<not> P (rows ! k) \<Longrightarrow>
   last_match P rows i found = i + int j"
proof (induction rows arbitrary: i j found)
  case Nil
  then show ?case by simp
next
  case (Cons row rows)
  show ?case
  proof (cases j)
    case 0
    have "\<forall>r\<in>set rows. \<not> P r"
    proof
      fix r assume "r \<in> set rows"
      then obtain k where "k < length rows" "rows ! k = r" by (auto simp: in_set_conv_nth)
      with Cons.prems(3) [rule_format, of "Suc k"] 0 show "\<not> P r" by auto
    qed
    with Cons.prems(2) 0 show ?thesis by (simp add: last_match_none)
  next
    case (Suc j')
    have "last_match P rows (i + 1) (if P row then i else found) = (i + 1) + int j'"
    proof (rule Cons.IH)
      show "j' < length rows" using Cons.prems(1) Suc by simp
      show "P (rows ! j')" using Cons.prems(2) Suc by simp
      show "\<forall>k<length rows. j' < k \<longrightarrow> \<not> P (rows ! k)"
        using Cons.prems(3) Suc by auto
    qed
    then show ?thesis using Suc by simp
  qed
qed

lemma TRK223Solver_frame:
  assumes h: "waveLength e' = waveLength e"
  shows "TRK223Solver X e' row t = TRK223Solver X e row t"
  unfolding TRK223Solver_def h ..

text \<open>
  The result of \<open>CalculateTRK223\<close> from the two entries the scan leaves, for the keys the code
  computes, whatever they are.
\<close>

lemma TRK223_result_keys:
  assumes ex: "expand_abbreviation (groundStationId e) = (gid, cplx0)"
    and cplx: "cplx = complex_of_number (station_number X gid) cplx0"
    and sc: "sc = spacecraft_name X (spacecraftId e)"
    and rd: "\<forall>row\<in>set (DSNDatabase e).
               scan_reads sc cplx (DSN_station_id gid) row \<longrightarrow> well_formed_times row"
  shows "snd (CalculateTRK223 X e) =
           (let l0 = last_match (row_matches_complex X (epoch e) sc cplx) (DSNDatabase e) 0 (- 1);
                l1 = last_match (row_matches_station X (epoch e) sc cplx (DSN_station_id gid))
                       (DSNDatabase e) 0 (- 1)
            in if l0 \<noteq> - 1 then
                 (case TRK223Solver X e (DSNDatabase e ! nat l0) (epoch e) of
                    Inl err \<Rightarrow> Inl err
                  | Inr c0 \<Rightarrow>
                     (if l1 \<noteq> - 1 then
                        (case TRK223Solver X e (DSNDatabase e ! nat l1) (epoch e) of
                           Inl err \<Rightarrow> Inl err
                         | Inr c1 \<Rightarrow> Inr [c0 + c1, 0, (c0 + c1) / SPEED_OF_LIGHT_VACUUM])
                      else Inr [c0, 0, c0 / SPEED_OF_LIGHT_VACUUM]))
               else Inl RecordNotFound)"
proof -
  have fr: "TRK223Solver X (e\<lparr>groundStationId := g\<rparr>) row t = TRK223Solver X e row t" for g row t
    by (rule TRK223Solver_frame) simp
  show ?thesis
    using rd
    by (simp add: CalculateTRK223_def ex Let_def scan_rows_eq cplx [symmetric] sc [symmetric] fr
        split: sum.split)
qed

text \<open>
  For a station given by its number, the keys the code computes are those of the
  specification.
\<close>

lemma numbered_station_keys:
  assumes "station_number_of X (groundStationId e) = Some n"
  shows "expand_abbreviation (groundStationId e) = (groundStationId e, [])"
    and "station_number X (groundStationId e) = n"
    and "complex_of_number n d = complex_of_station_number n"
    and "station_complex X (groundStationId e) = Some (complex_of_station_number n)"
    and "station_key e = DSN_station_id (groundStationId e)"
  using assms
  by (auto simp add: station_number_of_def expand_abbreviation_def station_number_def
      read_Integer_def complex_of_number_def complex_of_station_number_def station_complex_def
      station_key_def split: if_splits)

lemma numbered_station_matches:
  assumes "station_number_of X (groundStationId e) = Some n"
  shows "row_matches_complex X (epoch e) (spacecraft_name X (spacecraftId e))
           (complex_of_station_number n) = complex_level_match X e"
    and "row_matches_station X (epoch e) (spacecraft_name X (spacecraftId e))
           (complex_of_station_number n) (DSN_station_id (groundStationId e))
         = station_level_match X e"
    and "scan_reads (spacecraft_name X (spacecraftId e)) (complex_of_station_number n)
           (DSN_station_id (groundStationId e)) = keyed_row X e"
  using numbered_station_keys(4,5) [OF assms]
  by (auto simp add: fun_eq_iff row_matches_complex_def complex_level_match_def
      row_matches_station_def station_level_match_def scan_reads_def keyed_row_def)

lemma TRK223_result:
  assumes num: "station_number_of X (groundStationId e) = Some n"
    and rd: "readable_table X e"
  shows "snd (CalculateTRK223 X e) =
           (let l0 = last_match (complex_level_match X e) (DSNDatabase e) 0 (- 1);
                l1 = last_match (station_level_match X e) (DSNDatabase e) 0 (- 1)
            in if l0 \<noteq> - 1 then
                 (case TRK223Solver X e (DSNDatabase e ! nat l0) (epoch e) of
                    Inl err \<Rightarrow> Inl err
                  | Inr c0 \<Rightarrow>
                     (if l1 \<noteq> - 1 then
                        (case TRK223Solver X e (DSNDatabase e ! nat l1) (epoch e) of
                           Inl err \<Rightarrow> Inl err
                         | Inr c1 \<Rightarrow> Inr [c0 + c1, 0, (c0 + c1) / SPEED_OF_LIGHT_VACUUM])
                      else Inr [c0, 0, c0 / SPEED_OF_LIGHT_VACUUM]))
               else Inl RecordNotFound)"
proof -
  note k = numbered_station_keys [OF num]
  note m = numbered_station_matches [OF num]
  have rd': "\<forall>row\<in>set (DSNDatabase e).
               scan_reads (spacecraft_name X (spacecraftId e)) (complex_of_station_number n)
                 (DSN_station_id (groundStationId e)) row \<longrightarrow> well_formed_times row"
    using rd by (auto simp add: readable_table_def list_all_iff m(3) split: if_splits)
  have c: "complex_of_station_number n =
             complex_of_number (station_number X (groundStationId e)) []"
    by (simp add: k(2) k(3))
  show ?thesis
    using TRK223_result_keys [OF k(1) c refl rd'] by (simp add: m(1,2))
qed

lemma CONST_solver:
  assumes "well_formed_times row" and "modelType row = ''CONST''"
    and "ToRealArray X (coefCsv row) = k # ks"
  shows "TRK223Solver X e row t =
           Inr (k * (2295000000 / (SPEED_OF_LIGHT_VACUUM / waveLength e))\<^sup>2)"
proof -
  from assms(1) obtain ts te where
    "GetTRK223Time X (validStart row) = Inr ts" "GetTRK223Time X (validEnd row) = Inr te"
    using GetTRK223Time_defined [of "validStart row" X] GetTRK223Time_defined [of "validEnd row" X]
    by (auto simp: well_formed_times_def)
  then show ?thesis
    using assms(2,3)
    by (simp add: TRK223Solver_def TRK223Model_def Let_def power2_eq_square)
qed

lemma matching_row_readable:
  assumes "readable_table X e" and "row \<in> set (DSNDatabase e)"
    and "complex_level_match X e row"
  shows "well_formed_times row"
proof -
  from assms(3) have "keyed_row X e row"
    by (simp add: complex_level_match_def keyed_row_def)
  with assms(1,2) show ?thesis
    by (auto simp add: readable_table_def list_all_iff split: if_splits)
qed

text \<open>
  What holds of the end-to-end property of a CONST record: for a station given by its
  number, on a table whose keyed rows have readable time tokens, one complex-level match of
  type CONST with first coefficient \<open>k\<close> and no station-level match give
  \<open>k * (refFreq / freq)\<^sup>2\<close>, 0 and the first value divided by \<open>c\<close>.
\<close>

lemma CONST_record_numbered_station:
  assumes "station_number_of X (groundStationId e) = Some n"
    and "readable_table X e"
    and "i < length (DSNDatabase e)"
    and "complex_level_match X e (DSNDatabase e ! i)"
    and "\<forall>j<length (DSNDatabase e). j \<noteq> i \<longrightarrow> \<not> complex_level_match X e (DSNDatabase e ! j)"
    and "\<forall>row\<in>set (DSNDatabase e). \<not> station_level_match X e row"
    and "modelType (DSNDatabase e ! i) = ''CONST''"
    and "ToRealArray X (coefCsv (DSNDatabase e ! i)) = k # ks"
  shows "snd (CalculateTRK223 X e) =
           Inr [k * (2295000000 / (SPEED_OF_LIGHT_VACUUM / waveLength e))\<^sup>2,
                0,
                k * (2295000000 / (SPEED_OF_LIGHT_VACUUM / waveLength e))\<^sup>2
                  / SPEED_OF_LIGHT_VACUUM]"
proof -
  have last: "\<forall>k<length (DSNDatabase e). i < k \<longrightarrow> \<not> complex_level_match X e (DSNDatabase e ! k)"
    using assms(5) by auto
  have l0: "last_match (complex_level_match X e) (DSNDatabase e) 0 (- 1) = int i"
    using last_match_last [OF assms(3,4) last, of 0 "- 1"] by simp
  have l1: "last_match (station_level_match X e) (DSNDatabase e) 0 (- 1) = - 1"
    using assms(6) by (rule last_match_none)
  have wf: "well_formed_times (DSNDatabase e ! i)"
    using assms(3) by (intro matching_row_readable [OF assms(2) _ assms(4)]) simp
  show ?thesis
    by (simp add: TRK223_result [OF assms(1,2)] l0 l1 CONST_solver [OF wf assms(7,8)])
qed

text \<open>
  Claim C5, as amended. For a station given by its number and a record table whose keyed
  rows have time tokens of the fixed width: when no record matches at complex level
  (spacecraft key, signal type DOPRNG or RANGE, the complex of the station, marker CHPART
  and a validity window around the epoch, both ends included), \<open>CalculateTRK223\<close> fails with
  \<open>RecordNotFound\<close>; when records match at complex level and at station level, the range
  correction returned is the sum of the corrections \<open>TRK223Solver\<close> evaluates for the last
  matching record of each kind.
\<close>

theorem CalculateTRK223_lookup:
  assumes "station_number_of X (groundStationId e) = Some n"
    and "readable_table X e"
  shows "((\<forall>row\<in>set (DSNDatabase e). \<not> complex_level_match X e row) \<longrightarrow>
            snd (CalculateTRK223 X e) = Inl RecordNotFound)
       \<and> (i < length (DSNDatabase e) \<and> complex_level_match X e (DSNDatabase e ! i)
          \<and> (\<forall>k<length (DSNDatabase e). i < k \<longrightarrow> \<not> complex_level_match X e (DSNDatabase e ! k))
          \<and> j < length (DSNDatabase e) \<and> station_level_match X e (DSNDatabase e ! j)
          \<and> (\<forall>k<length (DSNDatabase e). j < k \<longrightarrow> \<not> station_level_match X e (DSNDatabase e ! k))
          \<and> TRK223Solver X e (DSNDatabase e ! i) (epoch e) = Inr c0
          \<and> TRK223Solver X e (DSNDatabase e ! j) (epoch e) = Inr c1 \<longrightarrow>
            snd (CalculateTRK223 X e) = Inr [c0 + c1, 0, (c0 + c1) / SPEED_OF_LIGHT_VACUUM])"
proof (intro conjI impI)
  assume "\<forall>row\<in>set (DSNDatabase e). \<not> complex_level_match X e row"
  then have "last_match (complex_level_match X e) (DSNDatabase e) 0 (- 1) = - 1"
    by (rule last_match_none)
  then show "snd (CalculateTRK223 X e) = Inl RecordNotFound"
    by (simp add: TRK223_result [OF assms])
next
  assume h: "i < length (DSNDatabase e) \<and> complex_level_match X e (DSNDatabase e ! i)
          \<and> (\<forall>k<length (DSNDatabase e). i < k \<longrightarrow> \<not> complex_level_match X e (DSNDatabase e ! k))
          \<and> j < length (DSNDatabase e) \<and> station_level_match X e (DSNDatabase e ! j)
          \<and> (\<forall>k<length (DSNDatabase e). j < k \<longrightarrow> \<not> station_level_match X e (DSNDatabase e ! k))
          \<and> TRK223Solver X e (DSNDatabase e ! i) (epoch e) = Inr c0
          \<and> TRK223Solver X e (DSNDatabase e ! j) (epoch e) = Inr c1"
  then have l0: "last_match (complex_level_match X e) (DSNDatabase e) 0 (- 1) = int i"
    using last_match_last [of i "DSNDatabase e" "complex_level_match X e" 0 "- 1"] by simp
  from h have l1: "last_match (station_level_match X e) (DSNDatabase e) 0 (- 1) = int j"
    using last_match_last [of j "DSNDatabase e" "station_level_match X e" 0 "- 1"] by simp
  from h show "snd (CalculateTRK223 X e) = Inr [c0 + c1, 0, (c0 + c1) / SPEED_OF_LIGHT_VACUUM]"
    by (simp add: TRK223_result [OF assms] l0 l1)
qed

subsection \<open>The sample table: keys, windows and results\<close>

lemma example_windows:
  "validity_window example_env example_row = Some (28849.5, 29214.5)"
  "validity_window example_env example_station_row = Some (28849.5, 29214.5)"
  "validity_window example_env example_row_C40 = Some (28849.5, 29214.5)"
  "validity_window example_env example_row_C60 = Some (28849.5, 29214.5)"
  by (simp_all add: validity_window_def example_row_def example_station_row_def
      example_row_C40_def example_row_C60_def example_times)

lemma example_short_window: "validity_window example_env example_row_short = None"
  by (simp add: validity_window_def example_row_short_def example_row_def GetTRK223Time_def
      GetTRK223Fields_def substr_def Let_def)

lemma example_spacecraft: "spacecraft_name example_env 42 = ''SCID(42)''"
  by (simp add: spacecraft_name_def example_env_def)

lemma example_station_26:
  "station_number_of example_env ''26'' = Some 26"
  "station_complex example_env ''26'' = Some ''DSN(C10)''"
  by (simp_all add: station_number_of_def station_complex_def complex_of_station_number_def
      example_env_def example_ToInteger_values)

lemma example_station_CAN:
  "station_complex X ''CAN'' = Some ''DSN(C40)''"
  by (simp add: station_complex_def)

lemma example_rows_fields:
  "spacecraftKey example_row = ''SCID(42)''" "signalType example_row = ''DOPRNG''"
  "facilityKey example_row = ''DSN(C10)''" "recordType example_row = ''CHPART''"
  "modelType example_row = ''CONST''" "coefCsv example_row = ''5.0''"
  "12 \<le> length (validStart example_row)" "12 \<le> length (validEnd example_row)"
  by (simp_all add: example_row_def)

lemma example_coefs: "ToRealArray example_env ''5.0'' = [5]"
  by (simp add: example_env_def)

lemma example_engine_fields:
  "groundStationId example_engine = ''26''" "spacecraftId example_engine = 42"
  "epoch example_engine = 29000" "DSNDatabase example_engine = [example_row]"
  "waveLength example_engine = 13 / 100"
  by (simp_all add: example_engine_def)

lemma example_both_fields:
  "groundStationId example_both = ''26''" "spacecraftId example_both = 42"
  "epoch example_both = 29000" "DSNDatabase example_both = [example_row, example_station_row]"
  "waveLength example_both = 13 / 100"
  by (simp_all add: example_both_def example_engine_def)

lemma example_at_end_fields:
  "groundStationId example_at_end = ''26''" "spacecraftId example_at_end = 42"
  "epoch example_at_end = 292145 / 10" "DSNDatabase example_at_end = [example_row]"
  "waveLength example_at_end = 13 / 100"
  by (simp_all add: example_at_end_def example_engine_def)

lemma example_short_fields:
  "groundStationId example_short = ''26''" "spacecraftId example_short = 42"
  "epoch example_short = 29000" "DSNDatabase example_short = [example_row_short]"
  by (simp_all add: example_short_def example_engine_def)

lemma example_CAN_fields:
  "groundStationId example_CAN = ''CAN''" "spacecraftId example_CAN = 42"
  "epoch example_CAN = 29000" "DSNDatabase example_CAN = [example_row_C40]"
  by (simp_all add: example_CAN_def example_engine_def)

lemma example_CAN_others_fields:
  "groundStationId example_CAN_others = ''CAN''" "spacecraftId example_CAN_others = 42"
  "epoch example_CAN_others = 29000"
  "DSNDatabase example_CAN_others = [example_row, example_row_C60]"
  "waveLength example_CAN_others = 13 / 100"
  by (simp_all add: example_CAN_others_def example_engine_def)

lemma example_station_row_fields:
  "spacecraftKey example_station_row = ''SCID(42)''" "signalType example_station_row = ''DOPRNG''"
  "facilityKey example_station_row = ''DSN(026)''" "recordType example_station_row = ''CHPART''"
  "modelType example_station_row = ''CONST''" "coefCsv example_station_row = ''5.0''"
  "12 \<le> length (validStart example_station_row)" "12 \<le> length (validEnd example_station_row)"
  by (simp_all add: example_station_row_def example_row_def)

lemma example_row_C40_fields:
  "spacecraftKey example_row_C40 = ''SCID(42)''" "signalType example_row_C40 = ''DOPRNG''"
  "facilityKey example_row_C40 = ''DSN(C40)''" "recordType example_row_C40 = ''CHPART''"
  "modelType example_row_C40 = ''CONST''" "coefCsv example_row_C40 = ''5.0''"
  by (simp_all add: example_row_C40_def example_row_def)

lemma example_row_C60_fields:
  "spacecraftKey example_row_C60 = ''SCID(42)''" "signalType example_row_C60 = ''DOPRNG''"
  "facilityKey example_row_C60 = ''DSN(C60)''" "recordType example_row_C60 = ''CHPART''"
  by (simp_all add: example_row_C60_def example_row_def)

lemma example_row_short_fields:
  "spacecraftKey example_row_short = ''SCID(42)''" "signalType example_row_short = ''DOPRNG''"
  "facilityKey example_row_short = ''DSN(C10)''" "recordType example_row_short = ''CHPART''"
  "validStart example_row_short = ''20 01''"
  by (simp_all add: example_row_short_def example_row_def)

lemma example_wf:
  "well_formed_times example_row" "well_formed_times example_station_row"
  by (simp_all add: well_formed_times_def example_rows_fields example_station_row_fields)

lemma example_solver:
  "TRK223Solver example_env e example_row t =
     Inr (5 * (2295000000 / (SPEED_OF_LIGHT_VACUUM / waveLength e))\<^sup>2)"
  "TRK223Solver example_env e example_station_row t =
     Inr (5 * (2295000000 / (SPEED_OF_LIGHT_VACUUM / waveLength e))\<^sup>2)"
  by (rule CONST_solver [where ks = "[]"];
      simp add: example_wf example_rows_fields example_station_row_fields example_coefs)+

lemma example_station_key_26:
  "groundStationId e = ''26'' \<Longrightarrow> station_key e = ''DSN(026)''"
  by (simp add: station_key_def expand_abbreviation_def DSN_station_id_def)

theorem CalculateTRK223_lookup_witness:
  "station_number_of example_env (groundStationId example_both) = Some 26
   \<and> readable_table example_env example_both
   \<and> complex_level_match example_env example_both example_row
   \<and> station_level_match example_env example_both example_station_row
   \<and> snd (CalculateTRK223 example_env example_both) =
        Inr [5 * (2295000000 / (SPEED_OF_LIGHT_VACUUM / (13 / 100)))\<^sup>2
               + 5 * (2295000000 / (SPEED_OF_LIGHT_VACUUM / (13 / 100)))\<^sup>2,
             0,
             (5 * (2295000000 / (SPEED_OF_LIGHT_VACUUM / (13 / 100)))\<^sup>2
               + 5 * (2295000000 / (SPEED_OF_LIGHT_VACUUM / (13 / 100)))\<^sup>2)
               / SPEED_OF_LIGHT_VACUUM]
   \<and> snd (CalculateTRK223 example_env (example_engine\<lparr>spacecraftId := 7\<rparr>)) = Inl RecordNotFound"
proof -
  let ?e7 = "example_engine\<lparr>spacecraftId := 7\<rparr>"
  have n7: "station_number_of example_env (groundStationId ?e7) = Some 26"
    by (simp add: example_engine_fields example_station_26)
  have sc7: "spacecraft_name example_env 7 = ''SCID(0)''"
    by (simp add: spacecraft_name_def example_env_def)
  have db7: "DSNDatabase ?e7 = [example_row]" by (simp add: example_engine_fields)
  have rd7: "readable_table example_env ?e7"
    by (simp add: readable_table_def db7 keyed_row_def sc7 example_rows_fields)
  have none: "\<forall>row\<in>set (DSNDatabase ?e7). \<not> complex_level_match example_env ?e7 row"
    by (simp add: db7 complex_level_match_def sc7 example_rows_fields)
  have r7: "snd (CalculateTRK223 example_env ?e7) = Inl RecordNotFound"
    using CalculateTRK223_lookup [OF n7 rd7, of 0 0 0 0] none by blast
  have n: "station_number_of example_env (groundStationId example_both) = Some 26"
    by (simp add: example_both_fields example_station_26)
  have rd: "readable_table example_env example_both"
    by (simp add: readable_table_def example_both_fields example_wf)
  have cm0: "complex_level_match example_env example_both example_row"
    by (simp add: complex_level_match_def example_both_fields example_spacecraft
        example_station_26 example_rows_fields in_window_def example_windows)
  have cm1: "\<not> complex_level_match example_env example_both example_station_row"
    by (simp add: complex_level_match_def example_both_fields example_station_26
        example_station_row_fields)
  have sm1: "station_level_match example_env example_both example_station_row"
    by (simp add: station_level_match_def example_both_fields example_spacecraft
        example_station_26 example_station_row_fields in_window_def example_windows
        example_station_key_26)
  have pre: "0 < length (DSNDatabase example_both)
          \<and> complex_level_match example_env example_both (DSNDatabase example_both ! 0)
          \<and> (\<forall>k<length (DSNDatabase example_both). 0 < k \<longrightarrow>
                \<not> complex_level_match example_env example_both (DSNDatabase example_both ! k))
          \<and> 1 < length (DSNDatabase example_both)
          \<and> station_level_match example_env example_both (DSNDatabase example_both ! 1)
          \<and> (\<forall>k<length (DSNDatabase example_both). 1 < k \<longrightarrow>
                \<not> station_level_match example_env example_both (DSNDatabase example_both ! k))
          \<and> TRK223Solver example_env example_both (DSNDatabase example_both ! 0)
                (epoch example_both) =
               Inr (5 * (2295000000 / (SPEED_OF_LIGHT_VACUUM / (13 / 100)))\<^sup>2)
          \<and> TRK223Solver example_env example_both (DSNDatabase example_both ! 1)
                (epoch example_both) =
               Inr (5 * (2295000000 / (SPEED_OF_LIGHT_VACUUM / (13 / 100)))\<^sup>2)"
    using cm0 cm1 sm1
    by (auto simp add: example_both_fields(3,4,5) example_solver less_Suc_eq)
  have r2: "snd (CalculateTRK223 example_env example_both) =
        Inr [5 * (2295000000 / (SPEED_OF_LIGHT_VACUUM / (13 / 100)))\<^sup>2
               + 5 * (2295000000 / (SPEED_OF_LIGHT_VACUUM / (13 / 100)))\<^sup>2,
             0,
             (5 * (2295000000 / (SPEED_OF_LIGHT_VACUUM / (13 / 100)))\<^sup>2
               + 5 * (2295000000 / (SPEED_OF_LIGHT_VACUUM / (13 / 100)))\<^sup>2)
               / SPEED_OF_LIGHT_VACUUM]"
    using CalculateTRK223_lookup [OF n rd, of 0 1] pre by blast
  from n rd cm0 sm1 r2 r7 show ?thesis by blast
qed

lemma example_at_end_result:
  "snd (CalculateTRK223 example_env example_at_end) =
     Inr [5 * (2295000000 / (SPEED_OF_LIGHT_VACUUM / (13 / 100)))\<^sup>2,
          0,
          5 * (2295000000 / (SPEED_OF_LIGHT_VACUUM / (13 / 100)))\<^sup>2 / SPEED_OF_LIGHT_VACUUM]"
proof -
  have n: "station_number_of example_env (groundStationId example_at_end) = Some 26"
    by (simp add: example_at_end_fields example_station_26)
  have rd: "readable_table example_env example_at_end"
    by (simp add: readable_table_def example_at_end_fields example_wf)
  have cm: "complex_level_match example_env example_at_end example_row"
    by (simp add: complex_level_match_def example_at_end_fields example_spacecraft
        example_station_26 example_rows_fields in_window_def example_windows)
  have sm: "\<not> station_level_match example_env example_at_end example_row"
    by (simp add: station_level_match_def example_at_end_fields example_station_26
        example_rows_fields)
  show ?thesis
    by (simp add: TRK223_result [OF n rd] example_at_end_fields(3,4,5) cm sm example_solver)
qed

lemma example_short_result:
  "snd (CalculateTRK223 example_env example_short) = Inl StdOutOfRange"
proof -
  have k: "station_number example_env ''26'' = 26"
    by (simp add: station_number_def read_Integer_def example_env_def example_ToInteger_values)
  have b: "brackets example_env example_row_short 29000 = Inl StdOutOfRange"
    by (simp add: brackets_def example_row_short_fields GetTRK223Time_def GetTRK223Fields_def
        substr_def Let_def)
  show ?thesis
    by (simp add: CalculateTRK223_def expand_abbreviation_def example_short_fields k
        complex_of_number_def Let_def example_spacecraft scan_row_def example_row_short_fields b)
qed

lemma example_CAN_keys:
  "expand_abbreviation ''CAN'' = (''DSN(C40)'', ''DSN(C40)'')"
  "station_number example_env ''DSN(C40)'' = 0"
  "station_number (example_env\<lparr>stationNumber_init := 50\<rparr>) ''DSN(C40)'' = 50"
  by (simp_all add: expand_abbreviation_def station_number_def read_Integer_def example_env_def
      example_ToInteger_def is_digit_def)

lemma example_CAN_others_result:
  "snd (CalculateTRK223 example_env example_CAN_others) =
     Inr [5 * (2295000000 / (SPEED_OF_LIGHT_VACUUM / (13 / 100)))\<^sup>2,
          0,
          5 * (2295000000 / (SPEED_OF_LIGHT_VACUUM / (13 / 100)))\<^sup>2 / SPEED_OF_LIGHT_VACUUM]"
proof -
  have ex: "expand_abbreviation (groundStationId example_CAN_others) = (''DSN(C40)'', ''DSN(C40)'')"
    by (simp add: example_CAN_others_fields example_CAN_keys)
  have c: "''DSN(C10)'' = complex_of_number (station_number example_env ''DSN(C40)'') ''DSN(C40)''"
    by (simp add: example_CAN_keys complex_of_number_def)
  have sc: "''SCID(42)'' = spacecraft_name example_env (spacecraftId example_CAN_others)"
    by (simp add: example_CAN_others_fields example_spacecraft)
  have rd: "\<forall>row\<in>set (DSNDatabase example_CAN_others).
              scan_reads ''SCID(42)'' ''DSN(C10)'' (DSN_station_id ''DSN(C40)'') row \<longrightarrow>
              well_formed_times row"
    by (simp add: example_CAN_others_fields scan_reads_def example_wf example_row_C60_fields
        DSN_station_id_def)
  have m: "row_matches_complex example_env 29000 ''SCID(42)'' ''DSN(C10)'' example_row"
    "\<not> row_matches_complex example_env 29000 ''SCID(42)'' ''DSN(C10)'' example_row_C60"
    "\<not> row_matches_station example_env 29000 ''SCID(42)'' ''DSN(C10)''
         (DSN_station_id ''DSN(C40)'') example_row"
    "\<not> row_matches_station example_env 29000 ''SCID(42)'' ''DSN(C10)''
         (DSN_station_id ''DSN(C40)'') example_row_C60"
    by (simp_all add: row_matches_complex_def row_matches_station_def example_rows_fields
        example_row_C60_fields in_window_def example_windows DSN_station_id_def)
  show ?thesis
    by (simp add: TRK223_result_keys [OF ex c sc rd] example_CAN_others_fields(3,4,5) m
        example_solver)
qed

lemma example_CAN_result:
  assumes "station_number X ''DSN(C40)'' = k" and "k < 30 \<or> 50 \<le> k"
  shows "snd (CalculateTRK223 X example_CAN) = Inl RecordNotFound"
proof -
  let ?cplx = "complex_of_number k ''DSN(C40)''"
  let ?sc = "spacecraft_name X (spacecraftId example_CAN)"
  have ex: "expand_abbreviation (groundStationId example_CAN) = (''DSN(C40)'', ''DSN(C40)'')"
    by (simp add: example_CAN_fields example_CAN_keys)
  have c: "?cplx = complex_of_number (station_number X ''DSN(C40)'') ''DSN(C40)''"
    by (simp add: assms(1))
  have ne: "?cplx \<noteq> ''DSN(C40)''"
    using assms(2) by (auto simp add: complex_of_number_def)
  have unread: "\<not> scan_reads ?sc ?cplx (DSN_station_id ''DSN(C40)'') example_row_C40"
    using ne by (auto simp add: scan_reads_def example_row_C40_fields DSN_station_id_def)
  have rd: "\<forall>row\<in>set (DSNDatabase example_CAN).
              scan_reads ?sc ?cplx (DSN_station_id ''DSN(C40)'') row \<longrightarrow> well_formed_times row"
    using unread by (simp add: example_CAN_fields)
  have m: "\<not> row_matches_complex X (epoch example_CAN) ?sc ?cplx example_row_C40"
    using ne by (auto simp add: row_matches_complex_def example_row_C40_fields)
  show ?thesis
    using m by (simp add: TRK223_result_keys [OF ex c refl rd] example_CAN_fields(4))
qed

text \<open>
  The claim as stated fails in three ways. At the very end of the only record's window no
  record matches with the window of the glossary, yet a correction is returned. With a
  start token cut short no record matches, yet the call ends in the \<^verbatim>\<open>std::out_of_range\<close> of
  \<^verbatim>\<open>substr\<close>. For the station CAN and records of the two other complexes only, no record
  is of the station's complex, yet a correction is returned, taken from the complex that the
  value left in \<^verbatim>\<open>stationNumber\<close> selects.
\<close>

theorem CalculateTRK223_lookup_counterexample:
  "\<not> complex_level_match_claimed example_env example_at_end example_row
   \<and> snd (CalculateTRK223 example_env example_at_end) =
        Inr [5 * (2295000000 / (SPEED_OF_LIGHT_VACUUM / (13 / 100)))\<^sup>2,
             0,
             5 * (2295000000 / (SPEED_OF_LIGHT_VACUUM / (13 / 100)))\<^sup>2 / SPEED_OF_LIGHT_VACUUM]
   \<and> \<not> complex_level_match_claimed example_env example_short example_row_short
   \<and> snd (CalculateTRK223 example_env example_short) = Inl StdOutOfRange
   \<and> \<not> complex_level_match_claimed example_env example_CAN_others example_row
   \<and> \<not> complex_level_match_claimed example_env example_CAN_others example_row_C60
   \<and> snd (CalculateTRK223 example_env example_CAN_others) =
        Inr [5 * (2295000000 / (SPEED_OF_LIGHT_VACUUM / (13 / 100)))\<^sup>2,
             0,
             5 * (2295000000 / (SPEED_OF_LIGHT_VACUUM / (13 / 100)))\<^sup>2 / SPEED_OF_LIGHT_VACUUM]"
proof -
  have a: "\<not> complex_level_match_claimed example_env example_at_end example_row"
    by (simp add: complex_level_match_claimed_def in_window_claimed_def example_windows
        example_at_end_fields)
  have s: "\<not> complex_level_match_claimed example_env example_short example_row_short"
    by (simp add: complex_level_match_claimed_def in_window_claimed_def example_short_window)
  have c: "\<not> complex_level_match_claimed example_env example_CAN_others example_row"
    "\<not> complex_level_match_claimed example_env example_CAN_others example_row_C60"
    by (simp_all add: complex_level_match_claimed_def example_CAN_others_fields
        example_station_CAN example_rows_fields example_row_C60_fields)
  from a s c example_at_end_result example_short_result example_CAN_others_result
  show ?thesis by blast
qed

text \<open>
  Claim C3 fails on the code. The station is given by the abbreviation CAN, whose complex is
  DSN(C40); the table holds exactly one record, of that complex, of type CONST with first
  coefficient 5, for the spacecraft and with the epoch inside its window. The abbreviation
  block sets the complex name to DSN(C40), but \<^verbatim>\<open>ToInteger\<close> then fails on the expanded
  identifier, \<^verbatim>\<open>stationNumber\<close> keeps the value it happens to hold, and the tests on it
  overwrite the complex name: for a value below 30 (here 0) or from 50 on (here 50) the
  record is not found.
\<close>

theorem CalculateTRK223_abbreviation_not_found:
  "DSNDatabase example_CAN = [example_row_C40]
   \<and> station_complex example_env (groundStationId example_CAN) = Some (facilityKey example_row_C40)
   \<and> complex_level_match_claimed example_env example_CAN example_row_C40
   \<and> modelType example_row_C40 = ''CONST''
   \<and> ToRealArray example_env (coefCsv example_row_C40) = [5]
   \<and> snd (CalculateTRK223 example_env example_CAN) = Inl RecordNotFound
   \<and> snd (CalculateTRK223 (example_env\<lparr>stationNumber_init := 50\<rparr>) example_CAN)
        = Inl RecordNotFound"
proof -
  have m: "complex_level_match_claimed example_env example_CAN example_row_C40"
    by (simp add: complex_level_match_claimed_def example_CAN_fields example_spacecraft
        example_station_CAN example_row_C40_fields in_window_claimed_def example_windows)
  have r0: "snd (CalculateTRK223 example_env example_CAN) = Inl RecordNotFound"
    by (rule example_CAN_result [OF example_CAN_keys(2)]) simp
  have r50: "snd (CalculateTRK223 (example_env\<lparr>stationNumber_init := 50\<rparr>) example_CAN)
               = Inl RecordNotFound"
    by (rule example_CAN_result [OF example_CAN_keys(3)]) simp
  from m r0 r50 show ?thesis
    by (simp add: example_CAN_fields example_station_CAN example_row_C40_fields example_coefs)
qed

end
